theory Spec2Isabelle
  imports Complex_Main
begin

section \<open>Values, exceptions and strings\<close>

text \<open>
  Python floats are modelled as real numbers. A float computation that leaves the reals
  (NaN, an infinity, a complex power of a negative base) and a value the sources give no
  meaning to are not represented: the model stops there with \<open>Unmodelled\<close>, which no
  handler of the program catches. The other constructors are the Python exceptions the
  modelled code can raise.
\<close>

datatype exn =
    FileNotFoundError | NameError | KeyError | IndexError | ValueError
  | TypeError | ZeroDivisionError | AttributeError | Unmodelled

text \<open>A cell of a table read by \<open>pandas.read_csv\<close>: a number, a text, or a missing value.\<close>

datatype cell = Num real | Txt string | NaN

text \<open>Sequencing of fallible steps: the first exception ends the computation.\<close>

definition bnd :: "exn + 'a \<Rightarrow> ('a \<Rightarrow> exn + 'b) \<Rightarrow> exn + 'b" where
  "bnd m f = (case m of Inl e \<Rightarrow> Inl e | Inr v \<Rightarrow> f v)"

text \<open>\<open>except Exception\<close>: every Python exception is handled, \<open>Unmodelled\<close> passes.\<close>

definition except_Exception :: "exn + 'a \<Rightarrow> 'a \<Rightarrow> exn + 'a" where
  "except_Exception m fallback =
     (case m of Inl Unmodelled \<Rightarrow> Inl Unmodelled | Inl _ \<Rightarrow> Inr fallback | Inr v \<Rightarrow> Inr v)"

text \<open>\<open>numpy.clip(x, lo, hi)\<close>.\<close>

definition clip :: "real \<Rightarrow> real \<Rightarrow> real \<Rightarrow> real" where
  "clip x lo hi = min (max x lo) hi"

text \<open>\<open>numpy.mean\<close> of a non-empty list.\<close>

definition mean :: "real list \<Rightarrow> real" where
  "mean xs = sum_list xs / real (length xs)"

text \<open>
  String operations of Python on ASCII text: \<open>str.lower\<close>, \<open>str.upper\<close>, \<open>str.strip\<close>,
  \<open>a in b\<close> and \<open>str.replace\<close> of a single character. Characters outside ASCII are left
  as they are by the case conversions.
\<close>

definition py_lower_char :: "char \<Rightarrow> char" where
  "py_lower_char c =
     (case map_of (zip ''ABCDEFGHIJKLMNOPQRSTUVWXYZ'' ''abcdefghijklmnopqrstuvwxyz'') c of
        Some d \<Rightarrow> d | None \<Rightarrow> c)"

definition py_upper_char :: "char \<Rightarrow> char" where
  "py_upper_char c =
     (case map_of (zip ''abcdefghijklmnopqrstuvwxyz'' ''ABCDEFGHIJKLMNOPQRSTUVWXYZ'') c of
        Some d \<Rightarrow> d | None \<Rightarrow> c)"

definition py_lower :: "string \<Rightarrow> string" where
  "py_lower s = map py_lower_char s"

definition py_upper :: "string \<Rightarrow> string" where
  "py_upper s = map py_upper_char s"

definition py_space :: "char \<Rightarrow> bool" where
  "py_space c = (c \<in> set [CHR 0x09, CHR 0x0A, CHR 0x0B, CHR 0x0C, CHR 0x0D,
                            CHR 0x1C, CHR 0x1D, CHR 0x1E, CHR 0x1F, CHR 0x20])"

definition py_strip :: "string \<Rightarrow> string" where
  "py_strip s = rev (dropWhile py_space (rev (dropWhile py_space s)))"

fun starts_with :: "string \<Rightarrow> string \<Rightarrow> bool" where
  "starts_with [] ys = True"
| "starts_with (x # xs) [] = False"
| "starts_with (x # xs) (y # ys) = (x = y \<and> starts_with xs ys)"

text \<open>\<open>py_in a b\<close> is Python's \<open>a in b\<close> on strings: \<open>a\<close> occurs in \<open>b\<close> contiguously.\<close>

fun py_in :: "string \<Rightarrow> string \<Rightarrow> bool" where
  "py_in a [] = (a = [])"
| "py_in a (y # ys) = (starts_with a (y # ys) \<or> py_in a ys)"

definition replace_char :: "char \<Rightarrow> string \<Rightarrow> string \<Rightarrow> string" where
  "replace_char c new s = concat (map (\<lambda>x. if x = c then new else [x]) s)"

text \<open>
  Functions of Python's standard library that the program calls and whose text is not
  part of the repository. They are parameters of the model:
  \<^item> \<open>get_close_matches word possibilities n cutoff\<close> of \<open>difflib\<close>;
  \<^item> \<open>str_of_float\<close>, the text of a number (\<open>astype(str)\<close> on a numeric cell);
  \<^item> \<open>int_of_str\<close>, the builtin \<open>int\<close> on a string, \<open>None\<close> where it raises \<open>ValueError\<close>;
  \<^item> \<open>float_of_str\<close>, the builtin \<open>float\<close> on a string: \<open>ValueError\<close> where it raises,
    \<open>Unmodelled\<close> for a text that denotes an infinity or NaN.
\<close>

record pylib =
  get_close_matches :: "string \<Rightarrow> string list \<Rightarrow> nat \<Rightarrow> real \<Rightarrow> string list"
  str_of_float :: "real \<Rightarrow> string"
  int_of_str :: "string \<Rightarrow> int option"
  float_of_str :: "string \<Rightarrow> exn + real"

section \<open>Tables\<close>

text \<open>
  A \<open>DataFrame\<close> read from a CSV file: the header and the rows, each row the list of its
  cells in the order of the header. A cell missing at the end of a row is \<open>NaN\<close>.
\<close>

record dataframe =
  columns :: "string list"
  rows :: "cell list list"

text \<open>The cell of a row under a column of the header (the first one of that name).\<close>

definition cell_at :: "dataframe \<Rightarrow> cell list \<Rightarrow> string \<Rightarrow> cell" where
  "cell_at df r c = (case map_of (zip (columns df) r) c of Some v \<Rightarrow> v | None \<Rightarrow> NaN)"

text \<open>
  \<open>Series.to_dict()\<close> of a row: a dictionary with one key per column; of two columns of
  the same name the later one is kept.
\<close>

definition to_dict :: "dataframe \<Rightarrow> cell list \<Rightarrow> (string \<rightharpoonup> cell)" where
  "to_dict df r =
     (\<lambda>k. if k \<in> set (columns df)
          then Some (case map_of (rev (zip (columns df) r)) k of Some v \<Rightarrow> v | None \<Rightarrow> NaN)
          else None)"

text \<open>\<open>dict.get(key, default)\<close>.\<close>

definition dict_get :: "('k \<rightharpoonup> 'v) \<Rightarrow> 'k \<Rightarrow> 'v \<Rightarrow> 'v" where
  "dict_get d k dflt = (case d k of Some v \<Rightarrow> v | None \<Rightarrow> dflt)"

text \<open>\<open>astype(str)\<close> of a cell.\<close>

fun astype_str :: "pylib \<Rightarrow> cell \<Rightarrow> string" where
  "astype_str lib (Txt s) = s"
| "astype_str lib (Num r) = str_of_float lib r"
| "astype_str lib NaN = ''nan''"

text \<open>\<open>get_column_name\<close> (stats_logic.py, preprocessor.py, models.py: the same text).\<close>

fun get_column_name :: "dataframe \<Rightarrow> string list \<Rightarrow> string option" where
  "get_column_name df [] = None"
| "get_column_name df (name # possible_names) =
     (if name \<in> set (columns df) then Some name else get_column_name df possible_names)"

text \<open>
  A cell read as a float that may be NaN: \<open>None\<close> is NaN, a text raises \<open>TypeError\<close>
  where it meets a number. NaN does not raise, so it is carried along to the end of the
  computation, where the result is \<open>Unmodelled\<close>.
\<close>

fun num_cell :: "cell \<Rightarrow> exn + real option" where
  "num_cell (Num r) = Inr (Some r)"
| "num_cell (Txt s) = Inl TypeError"
| "num_cell NaN = Inr None"

fun is_txt :: "cell \<Rightarrow> bool" where
  "is_txt (Txt s) = True"
| "is_txt c = False"

text \<open>\<open>Series.unique().tolist()\<close>: the distinct values in the order of first occurrence.\<close>

definition py_unique :: "'a list \<Rightarrow> 'a list" where
  "py_unique xs = rev (remdups (rev xs))"

text \<open>
  The column \<open>_temp_team\<close> that both \<open>get_recent_team_row\<close> functions add to the table:
  \<open>df[team_col].astype(str).str.strip().str.upper()\<close>, and the dictionary of a row of
  the table with that column. (A table read from a CSV file is taken to have no column of
  that name already.)
\<close>

definition temp_team :: "pylib \<Rightarrow> dataframe \<Rightarrow> string \<Rightarrow> cell list \<Rightarrow> string" where
  "temp_team lib df team_col r = py_upper (py_strip (astype_str lib (cell_at df r team_col)))"

definition row_dict :: "pylib \<Rightarrow> dataframe \<Rightarrow> string \<Rightarrow> cell list \<Rightarrow> (string \<rightharpoonup> cell)" where
  "row_dict lib df team_col r = (to_dict df r)(''_temp_team'' \<mapsto> Txt (temp_team lib df team_col r))"

section \<open>constants.py\<close>

definition LEAGUE_AVG_TEAM_K_PCT :: real where
  "LEAGUE_AVG_TEAM_K_PCT = 0.195"

definition LEAGUE_AVG_K :: real where
  "LEAGUE_AVG_K = 6.5"

definition PLATOON_MATCHUPS :: "(string \<times> string) \<rightharpoonup> real" where
  "PLATOON_MATCHUPS = map_of
     [((''L'', ''L''), 0.93),
      ((''L'', ''R''), 1.07),
      ((''R'', ''R''), 0.95),
      ((''R'', ''L''), 1.05)]"

text \<open>\<open>PARK_FACTORS\<close>, in the order of the source: \<open>get_park_modifier\<close> iterates over it.\<close>

definition PARK_FACTORS :: "(string \<times> real) list" where
  "PARK_FACTORS =
     [(''Angel Stadium'', 0.980),
      (''Busch Stadium'', 0.970),
      (''Chase Field'', 1.030),
      (''Citizens Bank Park'', 1.020),
      (''Citi Field'', 1.030),
      (''Comerica Park'', 0.950),
      (''Coors Field'', 0.930),
      (''Dodger Stadium'', 1.000),
      (''Fenway Park'', 0.960),
      (''Globe Life Field'', 0.980),
      (''Great American Ball Park'', 1.070),
      (''Guaranteed Rate Field'', 1.050),
      (''Kauffman Stadium'', 0.960),
      (''loanDepot Park'', 0.970),
      (''Minute Maid Park'', 1.010),
      (''Nationals Park'', 1.020),
      (''Oakland Coliseum'', 0.940),
      (''Oracle Park'', 1.030),
      (''Petco Park'', 0.970),
      (''PNC Park'', 1.000),
      (''Progressive Field'', 0.990),
      (''Rogers Centre'', 1.000),
      (''T-Mobile Park'', 0.980),
      (''Target Field'', 1.000),
      (''Tropicana Field'', 0.980),
      (''Truist Park'', 1.030),
      (''Wrigley Field'', 1.010),
      (''Yankee Stadium'', 1.050),
      (''American Family Field'', 1.020),
      (''Oriole Park at Camden Yards'', 1.010)]"

definition CATCHER_FRAMING_DICT :: "string \<rightharpoonup> real" where
  "CATCHER_FRAMING_DICT = map_of
     [(''Jonah Heim'', 0.00),
      (''Logan O'' @ [CHR 0x27] @ ''Hoppe'', -0.33),
      (''Francisco Alvarez'', -0.22),
      (''Connor Wong'', 0.11),
      (''Korey Lee'', 0.00),
      (''Jose Trevino'', 0.00),
      (''Henry Davis'', -0.11),
      (''Salvador Perez'', 0.11),
      (''Keibert Ruiz'', -0.44),
      (''Sean Murphy'', 0.00),
      (''Kyle Higashioka'', 0.11),
      (''Cal Raleigh'', 0.22),
      (''Patrick Bailey'', 0.44),
      (''Yainer Diaz'', -0.22),
      (''Gabriel Moreno'', 0.33)]"

section \<open>stats_logic.py\<close>

definition ewma_weights :: "nat \<Rightarrow> real \<Rightarrow> real list" where
  "ewma_weights n alpha = map (\<lambda>i. exp (- alpha * real i)) (rev [0..<n])"

definition calculate_ewma :: "real list \<Rightarrow> real \<Rightarrow> real" where
  "calculate_ewma vals alpha =
     (if vals = [] then 5.0
      else let weights = ewma_weights (length vals) alpha;
               weights = map (\<lambda>w. w / sum_list weights) weights
           in sum_list (map2 (*) weights vals))"

text \<open>
  The weight the specification gives to the observation \<open>i\<close> places from the end of a
  sequence of \<open>n\<close> observations: proportional to \<open>exp (- alpha * i)\<close>, normalised.
\<close>

definition recency_weight :: "nat \<Rightarrow> real \<Rightarrow> nat \<Rightarrow> real" where
  "recency_weight n alpha i = exp (- alpha * real i) / (\<Sum>j<n. exp (- alpha * real j))"

text \<open>
  \<open>get_recent_team_row\<close> of stats_logic.py. Every exception inside is caught and gives
  \<open>None\<close>: \<open>df[team_col]\<close> is a table, without \<open>.str\<close>, when two columns have that name
  (\<open>AttributeError\<close>), and \<open>.iloc[0]\<close> of no row is an \<open>IndexError\<close>.
\<close>

definition get_recent_team_row_sl :: "pylib \<Rightarrow> string \<Rightarrow> dataframe \<Rightarrow> (string \<rightharpoonup> cell) option" where
  "get_recent_team_row_sl lib team_name df =
     (if rows df = [] \<or> columns df = [] then None
      else case get_column_name df [''Team'', ''team'', ''Tm'', ''tm'', ''TEAM''] of
        None \<Rightarrow> None
      | Some team_col \<Rightarrow>
          (let team_name = py_upper (py_strip team_name) in
           if count_list (columns df) team_col \<noteq> 1 then None
           else case filter (\<lambda>r. temp_team lib df team_col r = team_name) (rows df) of
             r # _ \<Rightarrow> Some (row_dict lib df team_col r)
           | [] \<Rightarrow>
               (let candidates = py_unique (map (temp_team lib df team_col) (rows df)) in
                case get_close_matches lib team_name candidates 1 0.8 of
                  [] \<Rightarrow> None
                | c # _ \<Rightarrow>
                    (case filter (\<lambda>r. temp_team lib df team_col r = c) (rows df) of
                       r # _ \<Rightarrow> Some (row_dict lib df team_col r)
                     | [] \<Rightarrow> None))))"

text \<open>
  \<open>scale_ip_mean\<close>. \<open>x ** 0.5\<close> and \<open>x ** 0.3\<close> of a negative float are complex numbers
  in Python: they are carried along like NaN. The body is the \<open>try\<close> block; the function
  handles every exception of the body with the fallback.
\<close>

definition py_pow :: "real \<Rightarrow> real \<Rightarrow> real option" where
  "py_pow x y = (if x < 0 then None else Some (x powr y))"

definition scale_ip_body ::
  "pylib \<Rightarrow> real \<Rightarrow> string \<Rightarrow> string \<Rightarrow> string \<Rightarrow>
   dataframe \<Rightarrow> dataframe \<Rightarrow> dataframe \<Rightarrow> dataframe \<Rightarrow> exn + real" where
  "scale_ip_body lib base_ip opponent hand park l21_lhp l21_rhp delta_lhp delta_rhp =
     (let recent_df = (if hand = ''L'' then l21_lhp else l21_rhp);
          delta_df = (if hand = ''L'' then delta_lhp else delta_rhp);
          recent_data = get_recent_team_row_sl lib opponent recent_df;
          delta_data = get_recent_team_row_sl lib opponent delta_df;
          ip_factor = Some 1.0;
          park_factor = dict_get (map_of PARK_FACTORS) park 1.0;
          ip_factor = map_option (\<lambda>f. f * park_factor) ip_factor
      in
      bnd (case recent_data of
             Some rd \<Rightarrow>
               bnd (num_cell (dict_get rd ''k_pct'' (dict_get rd ''K%'' (Num LEAGUE_AVG_TEAM_K_PCT))))
                 (\<lambda>k_pct.
                    let k_pct = map_option (\<lambda>k. if k > 1.0 then k / 100 else k) k_pct;
                        k_factor = Option.bind k_pct (\<lambda>k. py_pow (k / LEAGUE_AVG_TEAM_K_PCT) 0.5)
                    in Inr (Option.bind ip_factor (\<lambda>f. map_option (\<lambda>kf. f * kf) k_factor)))
           | None \<Rightarrow> Inr ip_factor)
        (\<lambda>ip_factor.
      bnd (case delta_data of
             Some dd \<Rightarrow>
               bnd (num_cell (dict_get dd ''wRC+'' (dict_get dd ''wrc_plus'' (Num 0))))
                 (\<lambda>wrc_delta.
                    case wrc_delta of
                      None \<Rightarrow> Inr None
                    | Some d \<Rightarrow>
                        if 100 + d = 0 then Inl ZeroDivisionError
                        else (let wrc_factor = py_pow (100 / (100 + d)) 0.3
                              in Inr (Option.bind ip_factor (\<lambda>f. map_option (\<lambda>wf. f * wf) wrc_factor))))
           | None \<Rightarrow> Inr ip_factor)
        (\<lambda>ip_factor.
      case ip_factor of
        None \<Rightarrow> Inl Unmodelled
      | Some f \<Rightarrow> Inr (base_ip * clip f 0.8 1.2))))"

definition scale_ip_mean ::
  "pylib \<Rightarrow> real \<Rightarrow> string \<Rightarrow> string \<Rightarrow> string \<Rightarrow>
   dataframe \<Rightarrow> dataframe \<Rightarrow> dataframe \<Rightarrow> dataframe \<Rightarrow> exn + real" where
  "scale_ip_mean lib base_ip opponent hand park l21_lhp l21_rhp delta_lhp delta_rhp =
     except_Exception
       (scale_ip_body lib base_ip opponent hand park l21_lhp l21_rhp delta_lhp delta_rhp)
       (min (max base_ip 4.0) 6.5)"

section \<open>modifiers.py\<close>

text \<open>\<open>get_recent_team_row\<close> of modifiers.py.\<close>

definition get_recent_team_row :: "pylib \<Rightarrow> string \<Rightarrow> dataframe \<Rightarrow> (string \<rightharpoonup> cell) option" where
  "get_recent_team_row lib team_name df =
     (case get_column_name df [''Team'', ''team'', ''Tm'', ''tm''] of
        None \<Rightarrow> None
      | Some team_col \<Rightarrow>
          (let team_name = py_upper (py_strip team_name) in
           if count_list (columns df) team_col \<noteq> 1 then None
           else case filter (\<lambda>r. temp_team lib df team_col r = team_name) (rows df) of
             r # _ \<Rightarrow> Some (row_dict lib df team_col r)
           | [] \<Rightarrow>
               (case get_close_matches lib team_name
                       (py_unique (map (temp_team lib df team_col) (rows df))) 1 0.8 of
                  [] \<Rightarrow> None
                | c # _ \<Rightarrow>
                    (case filter (\<lambda>r. temp_team lib df team_col r = c) (rows df) of
                       r # _ \<Rightarrow> Some (row_dict lib df team_col r)
                     | [] \<Rightarrow> None))))"

definition calculate_catcher_framing_modifier :: "string \<Rightarrow> real" where
  "calculate_catcher_framing_modifier catcher_name =
     (let framing = dict_get CATCHER_FRAMING_DICT catcher_name 0.0;
          percent_mod = framing * - 3.94;
          multiplier = 1 + (percent_mod / 100.0)
      in clip multiplier 0.95 1.05)"

fun park_search :: "string \<Rightarrow> (string \<times> real) list \<Rightarrow> real" where
  "park_search normalized [] = 1.0"
| "park_search normalized ((official_name, factor) # items) =
     (if py_in normalized (py_lower official_name) then factor else park_search normalized items)"

definition get_park_modifier :: "string \<Rightarrow> real" where
  "get_park_modifier park_name = park_search (py_lower (py_strip park_name)) PARK_FACTORS"

text \<open>
  \<open>calculate_team_trend_modifier\<close>. The body is the \<open>try\<close> block; \<open>ValueError\<close> is the
  one the code raises itself when a row is missing.
\<close>

definition team_trend_body ::
  "pylib \<Rightarrow> string \<Rightarrow> string \<Rightarrow> dataframe \<Rightarrow> dataframe \<Rightarrow> dataframe \<Rightarrow> dataframe \<Rightarrow> exn + real" where
  "team_trend_body lib team_name pitcher_hand l21_lhp_df l21_rhp_df delta_lhp_df delta_rhp_df =
     (let recent_df = (if pitcher_hand = ''L'' then l21_lhp_df else l21_rhp_df);
          delta_df = (if pitcher_hand = ''L'' then delta_lhp_df else delta_rhp_df);
          team_recent = get_recent_team_row lib team_name recent_df;
          team_delta = get_recent_team_row lib team_name delta_df
      in case team_recent of
           None \<Rightarrow> Inl ValueError
         | Some recent \<Rightarrow>
             (case team_delta of
                None \<Rightarrow> Inl ValueError
              | Some delta \<Rightarrow>
                  bnd (num_cell (dict_get recent ''k_pct'' (Num LEAGUE_AVG_TEAM_K_PCT)))
                    (\<lambda>rec_k.
                  let rec_k = map_option (\<lambda>k. if k > 1.0 then k / 100 else k) rec_k in
                  bnd (num_cell (dict_get delta ''k_pct'' (Num 0.00)))
                    (\<lambda>delta_k.
                  case (rec_k, delta_k) of
                    (Some rec_k, Some delta_k) \<Rightarrow>
                      (let trend_mod = 0.98 + 0.25 * (rec_k / LEAGUE_AVG_TEAM_K_PCT) + delta_k
                       in Inr (clip trend_mod 0.85 1.15))
                  | _ \<Rightarrow> Inl Unmodelled))))"

definition calculate_team_trend_modifier ::
  "pylib \<Rightarrow> string \<Rightarrow> string \<Rightarrow> dataframe \<Rightarrow> dataframe \<Rightarrow> dataframe \<Rightarrow> dataframe \<Rightarrow> exn + real" where
  "calculate_team_trend_modifier lib team_name pitcher_hand l21_lhp_df l21_rhp_df delta_lhp_df delta_rhp_df =
     except_Exception
       (team_trend_body lib team_name pitcher_hand l21_lhp_df l21_rhp_df delta_lhp_df delta_rhp_df)
       (if pitcher_hand = ''L'' then 1.05 else 1.02)"


definition get_dynamic_weights :: "string \<Rightarrow> 'a list \<Rightarrow> real list" where
  "get_dynamic_weights pitcher_hand pitch_types =
     (let weights = [0.3, 0.25, 0.25, 0.2, 0.2] in
      if card (set pitch_types) = 1 then
        (let weights = weights[4 := weights ! 4 + 0.1];
             weights = weights[0 := weights ! 0 - 0.05];
             weights = weights[2 := weights ! 2 - 0.05]
         in weights)
      else weights)"

text \<open>
  A game log of the pitcher's cache file: \<open>strikeouts\<close> is a number when the key is
  present, \<open>innings_pitched\<close> a number or a text such as \<open>6.1\<close>.
\<close>

datatype json = JNum real | JStr string

record game_log =
  strikeouts :: "real option"
  innings_pitched :: "json option"

text \<open>A list of fallible results, in order: the first exception wins.\<close>

fun collect :: "(exn + 'a) list \<Rightarrow> exn + 'a list" where
  "collect [] = Inr []"
| "collect (m # ms) = bnd m (\<lambda>v. bnd (collect ms) (\<lambda>vs. Inr (v # vs)))"

text \<open>
  \<open>log.get('strikeouts', 0) / log.get('innings_pitched', 1)\<close>: division of Python numbers
  read from JSON.
\<close>

definition log_k_rate :: "game_log \<Rightarrow> exn + real" where
  "log_k_rate lg =
     (case (case innings_pitched lg of None \<Rightarrow> JNum 1 | Some v \<Rightarrow> v) of
        JStr s \<Rightarrow> Inl TypeError
      | JNum ip \<Rightarrow>
          if ip = 0 then Inl ZeroDivisionError
          else Inr ((case strikeouts lg of None \<Rightarrow> 0 | Some k \<Rightarrow> k) / ip))"

text \<open>
  \<open>np.clip(recent_k_rate / k_pct, 0.9, 1.1)\<close>. With logs, \<open>recent_k_rate\<close> is a numpy
  float and a division by zero gives an infinity, which \<open>clip\<close> brings back to a bound,
  or NaN; without logs it is \<open>k_pct\<close> itself, and the division of a Python float by zero
  raises (that of a numpy float is NaN: no number comes out either way).
\<close>

definition recent_factor_of :: "bool \<Rightarrow> real \<Rightarrow> real \<Rightarrow> exn + real option" where
  "recent_factor_of has_logs recent_k_rate k_pct =
     (if k_pct = 0 then
        (if \<not> has_logs then Inl ZeroDivisionError
         else if recent_k_rate > 0 then Inr (Some 1.1)
         else if recent_k_rate < 0 then Inr (Some 0.9)
         else Inr None)
      else Inr (Some (clip (recent_k_rate / k_pct) 0.9 1.1)))"

text \<open>
  \<open>calculate_stuff_modifier\<close>. The seven statistics are read in the order of the source;
  a text among them raises \<open>TypeError\<close> at its first use in arithmetic, a NaN makes the
  result NaN.
\<close>

definition calculate_stuff_modifier :: "(string \<rightharpoonup> cell) \<Rightarrow> game_log list \<Rightarrow> exn + real" where
  "calculate_stuff_modifier pitcher_row logs =
     (let stuff_plus = dict_get pitcher_row ''Stuff+'' (Num 100.0);
          k_pct = dict_get pitcher_row ''k_pct'' (Num 0.22);
          swstr = dict_get pitcher_row ''SwStr%'' (Num 0.105);
          csw = dict_get pitcher_row ''CSW%'' (Num 0.27);
          velo = dict_get pitcher_row ''FBv'' (Num 92.0);
          chase = dict_get pitcher_row ''O-Swing%'' (Num 0.30);
          z_contact = dict_get pitcher_row ''Z-Contact%'' (Num 0.88)
      in
      bnd (num_cell stuff_plus) (\<lambda>stuff_plus.
      bnd (num_cell velo) (\<lambda>velo.
      bnd (if logs \<noteq> [] then
             bnd (collect (map log_k_rate (drop (length logs - 3) logs)))
               (\<lambda>rates. Inr (Some (mean rates)))
           else Inr None) (\<lambda>logs_rate.
      bnd (num_cell k_pct) (\<lambda>k_pct.
      bnd (case k_pct of
             None \<Rightarrow> Inr None
           | Some k \<Rightarrow>
               recent_factor_of (logs \<noteq> []) (case logs_rate of Some r \<Rightarrow> r | None \<Rightarrow> k) k)
        (\<lambda>recent_factor.
      bnd (num_cell swstr) (\<lambda>swstr.
      bnd (num_cell chase) (\<lambda>chase.
      bnd (num_cell z_contact) (\<lambda>z_contact.
      bnd (num_cell csw) (\<lambda>csw.
      case (stuff_plus, velo, k_pct, recent_factor, swstr, chase, z_contact, csw) of
        (Some stuff_plus, Some velo, Some k_pct, Some recent_factor,
         Some swstr, Some chase, Some z_contact, Some csw) \<Rightarrow>
          (let stuff_score = (stuff_plus - 100) / 125;
               velo_score = (velo - 92) * 0.008;
               k_score = (k_pct - 0.22) * 1.2 * recent_factor;
               swstr_score = (swstr - 0.11) * 0.7;
               chase_whiff = (chase - 0.28) * 0.5 - (z_contact - 0.87) * 0.5;
               total = stuff_score * 0.35 + velo_score * 0.15 + k_score * 0.8
                       + swstr_score * 0.6 + chase_whiff * 0.4 + (csw - 0.27) * 0.3
           in Inr (clip (1 + total) 0.85 1.20))
      | _ \<Rightarrow> Inl Unmodelled))))))))))"

text \<open>
  \<open>calculate_batter_vulnerability_mod\<close>, with \<open>pitcher_quality\<close> at its default 1.0. A
  batter is the dictionary that \<open>preprocess_batter_from_lineup\<close> returns, which always
  has the four statistics. The pitch type is the putaway pitch, a cell of the pitcher
  table.
\<close>

record batter =
  b_name :: string
  b_hand :: string
  b_k_percent :: real
  b_woba :: real
  b_whiff_percent :: real
  b_put_away :: real
  b_matched :: bool

record pitch_avg =
  avg_k :: real
  avg_woba :: real
  avg_whiff :: real
  avg_putaway :: real

definition league_avgs :: "cell \<rightharpoonup> pitch_avg" where
  "league_avgs = map_of
     [(Txt ''Breaking'', \<lparr>avg_k = 0.25, avg_woba = 0.320, avg_whiff = 0.30, avg_putaway = 0.18\<rparr>),
      (Txt ''Fastball'', \<lparr>avg_k = 0.18, avg_woba = 0.350, avg_whiff = 0.15, avg_putaway = 0.12\<rparr>),
      (Txt ''Offspeed'', \<lparr>avg_k = 0.22, avg_woba = 0.330, avg_whiff = 0.25, avg_putaway = 0.16\<rparr>)]"

definition batter_mod :: "pitch_avg \<Rightarrow> string \<Rightarrow> batter \<Rightarrow> real" where
  "batter_mod avg pitcher_hand b =
     (let platoon_boost = (if pitcher_hand \<noteq> b_hand b then 1.1 else 0.95);
          vulnerability_score =
            (0.30 * (b_k_percent b - avg_k avg) +
             0.25 * (b_whiff_percent b - avg_whiff avg) +
             0.15 * (b_put_away b - avg_putaway avg) -
             0.30 * (b_woba b - avg_woba avg)) * platoon_boost * 1.0
      in clip (1 + vulnerability_score * 1.8) 0.85 1.15)"

definition calculate_batter_vulnerability_mod :: "batter list \<Rightarrow> cell \<Rightarrow> string \<Rightarrow> real" where
  "calculate_batter_vulnerability_mod batters pitch_type pitcher_hand =
     (if batters = [] then 1.0
      else let avg = dict_get league_avgs pitch_type
                       \<lparr>avg_k = 0.25, avg_woba = 0.320, avg_whiff = 0.30, avg_putaway = 0.18\<rparr>;
               modifiers = map (batter_mod avg pitcher_hand) batters
           in mean modifiers)"

text \<open>
  Modelled from the spec: \<open>get_platoon_modifier\<close>, which models.py imports from
  modifiers.py and which no file of the repository defines. The specification gives the
  platoon modifier of a pitcher hand and a batter hand as the entry of the fixed table
  \<open>PLATOON_MATCHUPS\<close> of constants.py; it gives no value outside the table (\<open>None\<close>).
\<close>

definition get_platoon_modifier :: "string \<Rightarrow> string \<Rightarrow> real option" where
  "get_platoon_modifier pitcher_hand batter_hand = PLATOON_MATCHUPS (pitcher_hand, batter_hand)"

section \<open>preprocessor.py\<close>

text \<open>
  \<open>parse_ip\<close>. Every exception inside is caught and gives 0.0: a text with more than one
  dot does not unpack into \<open>whole, frac\<close>, and \<open>int\<close> or \<open>float\<close> may reject the text.
\<close>

definition parse_ip :: "pylib \<Rightarrow> json \<Rightarrow> exn + real" where
  "parse_ip lib ip =
     (case ip of
        JNum r \<Rightarrow> Inr r
      | JStr ip_str \<Rightarrow>
          (let ip_str = py_strip ip_str in
           if CHR ''.'' \<in> set ip_str then
             (if count_list ip_str (CHR ''.'') \<noteq> 1 then Inr 0.0
              else let whole = takeWhile (\<lambda>c. c \<noteq> CHR ''.'') ip_str;
                       frac = tl (dropWhile (\<lambda>c. c \<noteq> CHR ''.'') ip_str)
                   in case int_of_str lib whole of
                        None \<Rightarrow> Inr 0.0
                      | Some whole \<Rightarrow>
                          if frac = ''1'' then Inr (real_of_int whole + 1 / 3)
                          else if frac = ''2'' then Inr (real_of_int whole + 2 / 3)
                          else Inr (real_of_int whole))
           else except_Exception (float_of_str lib ip_str) 0.0))"

text \<open>
  An entry of the \<open>lineup\<close> list of a cached lineup file: a dictionary, of which the keys
  \<open>name\<close> and \<open>hand\<close> are read (texts when present), or something else.
\<close>

datatype lineup_entry = BatterDict "string option" "string option" | NotADict

definition ascii_letter :: "char \<Rightarrow> bool" where
  "ascii_letter c =
     (c \<in> set ''abcdefghijklmnopqrstuvwxyz'' \<or> c \<in> set ''ABCDEFGHIJKLMNOPQRSTUVWXYZ'')"

text \<open>
  \<open>preprocess_batter_from_lineup\<close>. The functions \<open>default_batter_stats\<close> and
  \<open>expand_initials\<close> and the variable \<open>putaway_pitch\<close> that it names are defined nowhere in
  the repository: reaching one of them raises \<open>NameError\<close>. The first two are outside the
  \<open>try\<close> block. The third is inside it, and is reached by every other call, so the
  function returns the dictionary of its \<open>except\<close> branch: the league averages of a
  breaking pitch, not matched.
\<close>

definition preprocess_batter_from_lineup :: "lineup_entry \<Rightarrow> exn + batter" where
  "preprocess_batter_from_lineup entry =
     (case entry of
        NotADict \<Rightarrow> Inl NameError
      | BatterDict name hand \<Rightarrow>
          (let raw_name = py_strip (case name of None \<Rightarrow> [] | Some n \<Rightarrow> n);
               clean_name = py_lower (filter (\<lambda>c. ascii_letter c \<or> c = CHR ''.'') raw_name)
           in if CHR ''.'' \<in> set clean_name then Inl NameError
              else Inr \<lparr>b_name = (case name of None \<Rightarrow> ''Unknown'' | Some n \<Rightarrow> n),
                        b_hand = (case hand of None \<Rightarrow> ''R'' | Some h \<Rightarrow> h),
                        b_k_percent = 0.25, b_woba = 0.320, b_whiff_percent = 0.30,
                        b_put_away = 0.18, b_matched = False\<rparr>))"

section \<open>simulator.py\<close>

text \<open>
  \<open>simulate_ks adjusted_mean base_ip scaled_ip\<close> draws random samples, which are not
  modelled. What it computes from its arguments before it draws is the strikeout rate per
  inning, the first argument divided by the second; it draws nothing (\<open>None\<close>: all samples
  are zero) when an argument is not positive.
\<close>

definition k_rate_per_inning :: "real \<Rightarrow> real \<Rightarrow> real \<Rightarrow> real option" where
  "k_rate_per_inning adjusted_mean base_ip scaled_ip =
     (if adjusted_mean \<le> 0 \<or> base_ip \<le> 0 \<or> scaled_ip \<le> 0 then None
      else Some (adjusted_mean / base_ip))"

section \<open>models.py\<close>

text \<open>
  The files the projection reads: the pitcher caches \<open>cache/<safe name>_2025.json\<close> by their
  safe name, the lineup caches \<open>cache/<team>_<today>.json\<close> by their team, and the five CSV
  tables. A key of a cache file that is present holds a value of the expected kind; a file
  that is absent is \<open>None\<close>.
\<close>

record pitcher_json =
  pj_logs :: "game_log list option"
  pj_hand :: "string option"
  pj_team :: "string option"

record lineup_json =
  lj_lineup :: "lineup_entry list option"

record files =
  pitcher_cache :: "string \<rightharpoonup> pitcher_json"
  lineup_cache :: "string \<rightharpoonup> lineup_json"
  FINAL_PITCHER_FILE :: dataframe
  TEAM_TRENDS_LHP_L21 :: dataframe
  TEAM_TRENDS_RHP_L21 :: dataframe
  TEAM_TRENDS_LHP_DELTA :: dataframe
  TEAM_TRENDS_RHP_DELTA :: dataframe

definition normalize_column :: "string \<Rightarrow> string" where
  "normalize_column c =
     py_strip (replace_char (CHR ''+'') ''plus'' (replace_char (CHR ''%'') ''pct'' (py_lower c)))"

definition load_normalized_trend_df :: "dataframe \<Rightarrow> dataframe" where
  "load_normalized_trend_df df = df\<lparr>columns := map normalize_column (columns df)\<rparr>"

definition get_recent_ks_and_ip ::
  "pylib \<Rightarrow> files \<Rightarrow> string \<Rightarrow> exn + (real list \<times> real list \<times> string \<times> string \<times> game_log list)" where
  "get_recent_ks_and_ip lib fs pitcher_name =
     (let safe_name = py_lower (replace_char (CHR '' '') ''_'' pitcher_name) in
      case pitcher_cache fs safe_name of
        None \<Rightarrow> Inl FileNotFoundError
      | Some data \<Rightarrow>
          (let logs = (case pj_logs data of None \<Rightarrow> [] | Some l \<Rightarrow> l);
               ks = map (\<lambda>lg. case strikeouts lg of None \<Rightarrow> 0 | Some k \<Rightarrow> k) logs
           in bnd (collect (map (\<lambda>lg. parse_ip lib
                                 (case innings_pitched lg of None \<Rightarrow> JNum 0 | Some v \<Rightarrow> v)) logs))
                (\<lambda>ip.
                   let hand = (case pj_hand data of None \<Rightarrow> ''R'' | Some h \<Rightarrow> h);
                       team = (case pj_team data of None \<Rightarrow> ''UNK'' | Some t \<Rightarrow> t)
                   in Inr (ks, ip, hand, team, logs))))"

text \<open>
  The \<open>.str\<close> accessor of a column exists when the column holds texts: a column of a
  table read from a CSV file that has rows and holds no text is numeric, and \<open>.str\<close> of
  it raises \<open>AttributeError\<close>.
\<close>

definition has_str_accessor :: "dataframe \<Rightarrow> string \<Rightarrow> bool" where
  "has_str_accessor df c = (rows df = [] \<or> (\<exists>r \<in> set (rows df). is_txt (cell_at df r c)))"

definition get_putaway_pitch :: "string \<Rightarrow> dataframe \<Rightarrow> batter list \<Rightarrow> exn + cell" where
  "get_putaway_pitch pitcher_name pitcher_df opponent_lineup =
     (case get_column_name pitcher_df [''Name'', ''name'', ''pitcher_name'', ''player_name''] of
        None \<Rightarrow> Inr (Txt ''SL'')
      | Some name_col \<Rightarrow>
          if \<not> has_str_accessor pitcher_df name_col then Inl AttributeError
          else case filter (\<lambda>r. case cell_at pitcher_df r name_col of
                                   Txt s \<Rightarrow> py_lower (py_strip s) = py_lower pitcher_name
                                 | _ \<Rightarrow> False) (rows pitcher_df) of
            [] \<Rightarrow> Inr (Txt ''SL'')
          | r # _ \<Rightarrow>
              (let n_left = length (filter (\<lambda>b. b_hand b = ''L'') opponent_lineup);
                   n_right = length opponent_lineup - n_left;
                   lhb_col = get_column_name pitcher_df [''Putaway vs LHB'', ''putaway_vs_lhb'', ''LHB_putaway''];
                   rhb_col = get_column_name pitcher_df [''Putaway vs RHB'', ''putaway_vs_rhb'', ''RHB_putaway'']
               in case (lhb_col, rhb_col) of
                    (Some lhb_col, Some rhb_col) \<Rightarrow>
                      Inr (if n_left > n_right then cell_at pitcher_df r lhb_col
                           else cell_at pitcher_df r rhb_col)
                  | _ \<Rightarrow> Inr (Txt ''SL'')))"

text \<open>
  \<open>project_strikeouts\<close>, lines 136 to 137: the dictionaries of the cached lineup, each
  preprocessed.
\<close>

fun is_dict :: "lineup_entry \<Rightarrow> bool" where
  "is_dict (BatterDict name hand) = True"
| "is_dict NotADict = False"

definition opponent_lineup_of :: "lineup_json \<Rightarrow> exn + batter list" where
  "opponent_lineup_of lineup_data =
     (let raw_lineup = (case lj_lineup lineup_data of None \<Rightarrow> [] | Some l \<Rightarrow> l)
      in collect (map preprocess_batter_from_lineup (filter is_dict raw_lineup)))"

text \<open>
  Lines 153 to 164: the K% of the opponent in the trend table, the league average when
  the team has no row (\<open>IndexError\<close>) or its K% is missing (\<open>ValueError\<close>). A missing column
  is a \<open>KeyError\<close>, which is not handled. The handler prints the sorted teams of the table,
  and sorting texts together with missing values raises \<open>TypeError\<close>; the line printed after
  the handler formats the K% as a float and raises \<open>ValueError\<close> on a text.
\<close>

definition team_k_pct_of :: "dataframe \<Rightarrow> string \<Rightarrow> exn + real" where
  "team_k_pct_of trend_df opponent_team =
     (if ''Team'' \<notin> set (columns trend_df) \<or> ''K%'' \<notin> set (columns trend_df) then Inl KeyError
      else let league_average =
                 (if (\<exists>r \<in> set (rows trend_df). is_txt (cell_at trend_df r ''Team'')) \<and>
                     (\<exists>r \<in> set (rows trend_df). \<not> is_txt (cell_at trend_df r ''Team''))
                  then Inl TypeError else Inr LEAGUE_AVG_TEAM_K_PCT)
           in case filter (\<lambda>r. cell_at trend_df r ''Team'' = Txt opponent_team) (rows trend_df) of
                [] \<Rightarrow> league_average
              | r # _ \<Rightarrow>
                  (case cell_at trend_df r ''K%'' of
                     NaN \<Rightarrow> league_average
                   | Num k \<Rightarrow> Inr k
                   | Txt s \<Rightarrow> Inl ValueError))"

text \<open>
  Lines 192 to 204: the rows of the pitcher, by the exact name (trimmed, in lower case)
  and else by the first of the three closest names that has rows.
\<close>

fun first_match_rows :: "(string \<Rightarrow> cell list list) \<Rightarrow> string list \<Rightarrow> cell list list" where
  "first_match_rows rows_of [] = []"
| "first_match_rows rows_of (match # close_matches) =
     (if rows_of match \<noteq> [] then rows_of match else first_match_rows rows_of close_matches)"

definition find_pitcher_rows :: "pylib \<Rightarrow> dataframe \<Rightarrow> string \<Rightarrow> string \<Rightarrow> cell list list" where
  "find_pitcher_rows lib pitcher_df name_col pitcher_name =
     (let clean = (\<lambda>r. py_lower (py_strip (astype_str lib (cell_at pitcher_df r name_col))));
          rows_of = (\<lambda>name. filter (\<lambda>r. clean r = name) (rows pitcher_df));
          pitcher_rows = rows_of (py_lower pitcher_name)
      in if pitcher_rows = [] then
           (let candidates = map clean (rows pitcher_df);
                close_matches = get_close_matches lib (py_lower pitcher_name) candidates 3 0.6
            in first_match_rows rows_of close_matches)
         else pitcher_rows)"

text \<open>\<open>numpy.std\<close>: the population standard deviation.\<close>

definition std :: "real list \<Rightarrow> real" where
  "std xs = sqrt (mean (map (\<lambda>x. (x - mean xs)\<^sup>2) xs))"

text \<open>
  What a projection that succeeds has computed: the modifiers, the list of pitch types it
  passes to \<open>get_dynamic_weights\<close> and the weights it gets, the total modifier, the bases,
  and the three arguments of its call of \<open>simulate_ks\<close>. The dictionary that the code
  returns holds the pitcher, the adjusted mean and the base innings, rounded, and
  statistics of the random samples, which are not modelled.
\<close>

record projection =
  p_pitcher :: string
  p_matchup_mod :: real
  p_platoon_mod :: real
  p_park_mod :: real
  p_team_trend_mod :: real
  p_stuff_mod :: real
  p_batter_vuln_mod :: real
  p_framing_mod :: real
  p_pitch_types :: "cell list"
  p_weights :: "real list"
  p_total_mod :: real
  p_base_ks :: real
  p_base_ip :: real
  p_scaled_ip :: real
  p_dispersion :: real
  p_adjusted_mean :: real
  p_simulate_ks_args :: "real \<times> real \<times> real"

text \<open>
  \<open>project_strikeouts\<close>. \<open>Inr None\<close> is the return of \<open>None\<close>, \<open>Inl\<close> an exception that
  reaches the caller.
\<close>

definition project_strikeouts :: "pylib \<Rightarrow> files \<Rightarrow> string \<Rightarrow> string \<Rightarrow> string \<Rightarrow> exn + projection option" where
  "project_strikeouts lib fs pitcher_name opponent_team park =
     (case get_recent_ks_and_ip lib fs pitcher_name of
        Inl FileNotFoundError \<Rightarrow> Inr None
      | Inl e \<Rightarrow> Inl e
      | Inr (ks_logs, ip_logs, pitcher_hand, pitcher_team, logs) \<Rightarrow>
     (let framing_mod = calculate_catcher_framing_modifier pitcher_team in
      case lineup_cache fs opponent_team of
        None \<Rightarrow> Inr None
      | Some lineup_data \<Rightarrow>
     (let pitcher_df = FINAL_PITCHER_FILE fs in
      bnd (opponent_lineup_of lineup_data) (\<lambda>opponent_lineup.
      if opponent_lineup = [] then Inr None
      else
     (let team_lookup_name = py_strip opponent_team;
          trend_df = (if pitcher_hand = ''L'' then TEAM_TRENDS_LHP_L21 fs else TEAM_TRENDS_RHP_L21 fs)
      in
      bnd (team_k_pct_of trend_df opponent_team) (\<lambda>team_k_pct.
      let matchup_mod = clip (0.9 + 0.2 * (team_k_pct / LEAGUE_AVG_TEAM_K_PCT)) 0.85 1.15 in
      bnd (collect (map (\<lambda>b. case get_platoon_modifier pitcher_hand (b_hand b) of
                                 None \<Rightarrow> Inl Unmodelled | Some v \<Rightarrow> Inr v) opponent_lineup))
        (\<lambda>platoon_mods.
      let platoon_mod = mean platoon_mods;
          park_mod = get_park_modifier park;
          l21_lhp_df = load_normalized_trend_df (TEAM_TRENDS_LHP_L21 fs);
          l21_rhp_df = load_normalized_trend_df (TEAM_TRENDS_RHP_L21 fs);
          delta_lhp_df = load_normalized_trend_df (TEAM_TRENDS_LHP_DELTA fs);
          delta_rhp_df = load_normalized_trend_df (TEAM_TRENDS_RHP_DELTA fs)
      in
      bnd (calculate_team_trend_modifier lib team_lookup_name pitcher_hand
             l21_lhp_df l21_rhp_df delta_lhp_df delta_rhp_df) (\<lambda>team_trend_mod.
      case get_column_name pitcher_df [''Name'', ''name'', ''pitcher_name'', ''player_name''] of
        None \<Rightarrow> Inr None
      | Some name_col \<Rightarrow>
     (case find_pitcher_rows lib pitcher_df name_col pitcher_name of
        [] \<Rightarrow> Inr None
      | pitcher_row # _ \<Rightarrow>
      bnd (get_putaway_pitch pitcher_name pitcher_df opponent_lineup) (\<lambda>putaway_pitch.
      bnd (calculate_stuff_modifier (to_dict pitcher_df pitcher_row) logs) (\<lambda>stuff_mod.
      let pitch_types = [putaway_pitch];
          weights = get_dynamic_weights pitcher_hand pitch_types;
          base_ks = (if ks_logs \<noteq> [] then calculate_ewma ks_logs 0.25 else LEAGUE_AVG_K);
          base_ip = (if ip_logs \<noteq> [] then calculate_ewma ip_logs 0.25 else 5.0)
      in
      bnd (except_Exception
             (scale_ip_mean lib base_ip opponent_team pitcher_hand park
                l21_lhp_df l21_rhp_df delta_lhp_df delta_rhp_df)
             base_ip) (\<lambda>scaled_ip.
      let dispersion = (if length ks_logs \<ge> 5 then std (drop (length ks_logs - 5) ks_logs) else 1.0);
          batter_vuln_mod = calculate_batter_vulnerability_mod opponent_lineup putaway_pitch pitcher_hand;
          total_mod = 1.0 + sum_list
            [(matchup_mod - 1) * weights ! 0,
             (platoon_mod - 1) * weights ! 1,
             (park_mod - 1) * weights ! 2,
             (team_trend_mod - 1) * weights ! 3,
             (batter_vuln_mod - 1) * weights ! 4];
          total_mod = clip (total_mod * stuff_mod * framing_mod) 0.85 1.15;
          adjusted_mean = base_ks * total_mod
      in Inr (Some
           \<lparr>p_pitcher = pitcher_name,
            p_matchup_mod = matchup_mod,
            p_platoon_mod = platoon_mod,
            p_park_mod = park_mod,
            p_team_trend_mod = team_trend_mod,
            p_stuff_mod = stuff_mod,
            p_batter_vuln_mod = batter_vuln_mod,
            p_framing_mod = framing_mod,
            p_pitch_types = pitch_types,
            p_weights = weights,
            p_total_mod = total_mod,
            p_base_ks = base_ks,
            p_base_ip = base_ip,
            p_scaled_ip = scaled_ip,
            p_dispersion = dispersion,
            p_adjusted_mean = adjusted_mean,
            p_simulate_ks_args = (adjusted_mean, dispersion, scaled_ip)\<rparr>)))))))))))))"

section \<open>Example data\<close>

text \<open>
  A standard library for the examples: the fuzzy matcher finds nothing and no text is
  parsed as a number. The examples look up teams and pitchers either by their exact names
  or in tables that hold no similar name, and their logs hold numbers.
\<close>

definition plain_lib :: pylib where
  "plain_lib = \<lparr>get_close_matches = (\<lambda>word possibilities n cutoff. []),
                str_of_float = (\<lambda>r. []),
                int_of_str = (\<lambda>s. None),
                float_of_str = (\<lambda>s. Inl ValueError)\<rparr>"




text \<open>
  Files for one projection: a right-handed pitcher with one start (7 strikeouts in 6
  innings), a lineup of two batters, the pitcher table and a trend table with Boston.
\<close>

definition cole_cache :: pitcher_json where
  "cole_cache = \<lparr>pj_logs = Some [\<lparr>strikeouts = Some 7, innings_pitched = Some (JNum 6)\<rparr>],
                 pj_hand = Some ''R'', pj_team = Some ''NYY''\<rparr>"

definition bos_lineup :: lineup_json where
  "bos_lineup = \<lparr>lj_lineup = Some [BatterDict (Some ''Jarren Duran'') (Some ''L''),
                                    BatterDict (Some ''Trevor Story'') (Some ''R'')]\<rparr>"

text \<open>The batters of that lineup as \<open>preprocess_batter_from_lineup\<close> returns them.\<close>

definition bos_batters :: "batter list" where
  "bos_batters =
     [\<lparr>b_name = ''Jarren Duran'', b_hand = ''L'', b_k_percent = 0.25, b_woba = 0.320,
        b_whiff_percent = 0.30, b_put_away = 0.18, b_matched = False\<rparr>,
      \<lparr>b_name = ''Trevor Story'', b_hand = ''R'', b_k_percent = 0.25, b_woba = 0.320,
        b_whiff_percent = 0.30, b_put_away = 0.18, b_matched = False\<rparr>]"

definition pitcher_table :: dataframe where
  "pitcher_table = \<lparr>columns = [''Name'', ''Stuff+''], rows = [[Txt ''Gerrit Cole'', Num 110]]\<rparr>"

definition bos_trend :: dataframe where
  "bos_trend = \<lparr>columns = [''Team'', ''K%''], rows = [[Txt ''BOS'', Num 0.195]]\<rparr>"

definition cole_files :: files where
  "cole_files = \<lparr>pitcher_cache = [''gerrit_cole'' \<mapsto> cole_cache],
                 lineup_cache = [''BOS'' \<mapsto> bos_lineup],
                 FINAL_PITCHER_FILE = pitcher_table,
                 TEAM_TRENDS_LHP_L21 = bos_trend,
                 TEAM_TRENDS_RHP_L21 = bos_trend,
                 TEAM_TRENDS_LHP_DELTA = bos_trend,
                 TEAM_TRENDS_RHP_DELTA = bos_trend\<rparr>"

text \<open>The same with a cache file that holds no start.\<close>

definition no_logs_files :: files where
  "no_logs_files = cole_files\<lparr>pitcher_cache := [''gerrit_cole'' \<mapsto> cole_cache\<lparr>pj_logs := Some []\<rparr>]\<rparr>"

text \<open>
  A pitcher who has a cache file and no row in the pitcher table, against a lineup with a
  batter whose name is abbreviated.
\<close>

definition webb_files :: files where
  "webb_files = \<lparr>pitcher_cache = [''logan_webb'' \<mapsto> cole_cache\<lparr>pj_team := Some ''SF''\<rparr>],
                 lineup_cache = [''PIT'' \<mapsto> \<lparr>lj_lineup = Some [BatterDict (Some ''A. McCutchen'') (Some ''R'')]\<rparr>],
                 FINAL_PITCHER_FILE = pitcher_table,
                 TEAM_TRENDS_LHP_L21 = bos_trend,
                 TEAM_TRENDS_RHP_L21 = bos_trend,
                 TEAM_TRENDS_LHP_DELTA = bos_trend,
                 TEAM_TRENDS_RHP_DELTA = bos_trend\<rparr>"

text \<open>
  The same pitcher against the Boston lineup, with trend tables whose team column is named
  \<open>Tm\<close>, one of the names that \<open>get_recent_team_row\<close> accepts.
\<close>

definition tm_trend :: dataframe where
  "tm_trend = \<lparr>columns = [''Tm'', ''K%''], rows = [[Txt ''BOS'', Num 0.195]]\<rparr>"

definition tm_files :: files where
  "tm_files = \<lparr>pitcher_cache = [''logan_webb'' \<mapsto> cole_cache\<lparr>pj_team := Some ''SF''\<rparr>],
                lineup_cache = [''BOS'' \<mapsto> bos_lineup],
                FINAL_PITCHER_FILE = pitcher_table,
                TEAM_TRENDS_LHP_L21 = tm_trend,
                TEAM_TRENDS_RHP_L21 = tm_trend,
                TEAM_TRENDS_LHP_DELTA = tm_trend,
                TEAM_TRENDS_RHP_DELTA = tm_trend\<rparr>"

section \<open>Properties\<close>

subsection \<open>Exceptions\<close>

lemma bnd_Inr [simp]: "bnd (Inr x) f = f x"
  by (simp add: bnd_def)

lemma bnd_Inl [simp]: "bnd (Inl e) f = Inl e"
  by (simp add: bnd_def)

lemma bnd_Inr_iff: "bnd m f = Inr v \<longleftrightarrow> (\<exists>x. m = Inr x \<and> f x = Inr v)"
  by (cases m) simp_all

lemma except_Exception_Inr [simp]: "except_Exception (Inr v) d = Inr v"
  by (simp add: except_Exception_def)




lemma clip_inside: "clip x lo hi \<noteq> lo \<Longrightarrow> clip x lo hi \<noteq> hi \<Longrightarrow> lo \<le> hi \<Longrightarrow> clip x lo hi = x"
  by (simp add: clip_def min_def max_def split: if_splits)


lemmas table_eval =
  temp_team_def row_dict_def cell_at_def to_dict_def dict_get_def py_unique_def

subsection \<open>Team trend\<close>










subsection \<open>Stuff\<close>




subsection \<open>Innings scaling\<close>












subsection \<open>The recency-weighted average\<close>

lemma sum_list_map2_nth:
  fixes xs ys :: "real list"
  assumes "length xs = length ys"
  shows "sum_list (map2 (*) xs ys) = (\<Sum>k<length ys. xs ! k * ys ! k)"
proof -
  have "sum_list (map2 (*) xs ys) = (\<Sum>k = 0..<length (map2 (*) xs ys). map2 (*) xs ys ! k)"
    by (rule sum_list_sum_nth)
  also have "\<dots> = (\<Sum>k = 0..<length ys. xs ! k * ys ! k)"
    using assms by (intro sum.cong) auto
  finally show ?thesis by (simp add: atLeast0LessThan)
qed

lemma ewma_weights_sum:
  "sum_list (ewma_weights n alpha) = (\<Sum>j<n. exp (- alpha * real j))"
proof -
  have "sum_list (ewma_weights n alpha) = sum_list (map (\<lambda>i. exp (- alpha * real i)) [0..<n])"
    unfolding ewma_weights_def by (metis rev_map sum_list_rev)
  also have "\<dots> = (\<Sum>j<n. exp (- alpha * real j))"
    by (simp add: interv_sum_list_conv_sum_set_nat atLeast0LessThan)
  finally show ?thesis .
qed

lemma ewma_weights_pos: "0 < n \<Longrightarrow> 0 < (\<Sum>j<n. exp (- alpha * real j))"
  by (rule sum_pos) auto

lemma recency_weight_sum:
  assumes "0 < n" shows "(\<Sum>i<n. recency_weight n alpha i) = 1"
proof -
  have "(\<Sum>i<n. recency_weight n alpha i) = (\<Sum>i<n. exp (- alpha * real i)) / (\<Sum>j<n. exp (- alpha * real j))"
    unfolding recency_weight_def by (rule sum_divide_distrib[symmetric])
  with ewma_weights_pos[OF assms, of alpha] show ?thesis by simp
qed

lemma calculate_ewma_nonempty:
  assumes "vals \<noteq> []"
  shows "calculate_ewma vals alpha =
     (\<Sum>i<length vals. recency_weight (length vals) alpha i * vals ! (length vals - 1 - i))"
proof -
  let ?n = "length vals"
  let ?S = "\<Sum>j<?n. exp (- alpha * real j)"
  let ?ws = "map (\<lambda>w. w / ?S) (ewma_weights ?n alpha)"
  have len: "length ?ws = ?n" by (simp add: ewma_weights_def)
  have nth: "?ws ! k = recency_weight ?n alpha (?n - 1 - k)" if "k < ?n" for k
    using that by (simp add: ewma_weights_def recency_weight_def rev_nth)
  have step: "?ws ! k * vals ! k = recency_weight ?n alpha (?n - 1 - k) * vals ! k" if "k \<in> {..<?n}" for k
    using that nth[of k] by (simp only: lessThan_iff)
  have "calculate_ewma vals alpha = sum_list (map2 (*) ?ws vals)"
    using assms by (simp add: calculate_ewma_def Let_def ewma_weights_sum)
  also have "\<dots> = (\<Sum>k<?n. ?ws ! k * vals ! k)"
    using len by (rule sum_list_map2_nth)
  also have "\<dots> = (\<Sum>k<?n. recency_weight ?n alpha (?n - 1 - k) * vals ! k)"
    by (rule sum.cong[OF refl step])
  also have "\<dots> = (\<Sum>i<?n. recency_weight ?n alpha i * vals ! (?n - 1 - i))"
    by (rule sum.reindex_bij_witness[where i = "\<lambda>i. ?n - 1 - i" and j = "\<lambda>k. ?n - 1 - k"]) auto
  finally show ?thesis .
qed

text \<open>
  C5. \<open>calculate_ewma\<close> returns exactly 5.0 for the empty sequence. For a non-empty
  sequence it returns the weighted average in which the observation \<open>i\<close> places from the
  end has the weight \<open>exp (- alpha * i)\<close> divided by the sum of these over the sequence,
  and these weights sum to 1. For a sequence of one observation it returns that observation.
\<close>

theorem calculate_ewma_spec:
  "calculate_ewma [] alpha = 5.0 \<and>
   (vals \<noteq> [] \<longrightarrow>
      calculate_ewma vals alpha =
        (\<Sum>i<length vals. recency_weight (length vals) alpha i * vals ! (length vals - 1 - i)) \<and>
      (\<Sum>i<length vals. recency_weight (length vals) alpha i) = 1) \<and>
   calculate_ewma [x] alpha = x"
proof (intro conjI impI)
  show "calculate_ewma [] alpha = 5.0" by (simp add: calculate_ewma_def)
  show "calculate_ewma [x] alpha = x" by (simp add: calculate_ewma_def ewma_weights_def)
next
  assume "vals \<noteq> []"
  then show "calculate_ewma vals alpha =
        (\<Sum>i<length vals. recency_weight (length vals) alpha i * vals ! (length vals - 1 - i))"
    by (rule calculate_ewma_nonempty)
next
  assume "vals \<noteq> []"
  then show "(\<Sum>i<length vals. recency_weight (length vals) alpha i) = 1"
    by (simp add: recency_weight_sum)
qed

theorem calculate_ewma_spec_witness:
  "calculate_ewma [7, 9] 0.25 = recency_weight 2 0.25 0 * 9 + recency_weight 2 0.25 1 * 7
   \<and> recency_weight 2 0.25 0 + recency_weight 2 0.25 1 = 1"
  using calculate_ewma_spec [where alpha = "0.25" and vals = "[7, 9]" and x = 0]
  by (simp add: lessThan_Suc numeral_2_eq_2)

text \<open>
  C9. \<open>get_dynamic_weights\<close> returns the base vector [0.30, 0.25, 0.25, 0.20, 0.20] when
  the pitch types hold more than one distinct category; when they hold exactly one, the
  batter-vulnerability weight is 0.10 higher and the matchup and park weights are 0.05
  lower each. The weights sum to 1.20 in every case.
\<close>

theorem get_dynamic_weights_spec:
  "(1 < card (set pitch_types) \<longrightarrow>
      get_dynamic_weights pitcher_hand pitch_types = [0.30, 0.25, 0.25, 0.20, 0.20]) \<and>
   (card (set pitch_types) = 1 \<longrightarrow>
      get_dynamic_weights pitcher_hand pitch_types = [0.30 - 0.05, 0.25, 0.25 - 0.05, 0.20, 0.20 + 0.10]) \<and>
   sum_list (get_dynamic_weights pitcher_hand pitch_types) = 1.20"
  by (simp add: get_dynamic_weights_def Let_def)

theorem get_dynamic_weights_spec_witness:
  "1 < card (set [''SL'', ''FF'']) \<and> get_dynamic_weights ''R'' [''SL'', ''FF''] = [0.30, 0.25, 0.25, 0.20, 0.20] \<and>
   card (set [''SL'', ''SL'']) = 1 \<and> get_dynamic_weights ''R'' [''SL'', ''SL''] = [0.25, 0.25, 0.20, 0.20, 0.30]"
  using get_dynamic_weights_spec [where pitch_types = "[''SL'', ''FF'']" and pitcher_hand = "''R''"]
        get_dynamic_weights_spec [where pitch_types = "[''SL'', ''SL'']" and pitcher_hand = "''R''"]
  by simp

subsection \<open>The projection\<close>

lemma cache_case_Some_iff:
  "(case r of Inl FileNotFoundError \<Rightarrow> Inr None | Inl e \<Rightarrow> Inl e | Inr t \<Rightarrow> g t) = Inr (Some p)
     \<longleftrightarrow> (\<exists>t. r = Inr t \<and> g t = Inr (Some p))"
  by (cases r) (auto split: exn.splits)

lemma option_case_Some_iff:
  "(case x of None \<Rightarrow> Inr None | Some y \<Rightarrow> g y) = Inr (Some p)
     \<longleftrightarrow> (\<exists>y. x = Some y \<and> g y = Inr (Some p))"
  by (cases x) auto

lemma list_case_Some_iff:
  "(case xs of [] \<Rightarrow> Inr None | y # ys \<Rightarrow> g y ys) = Inr (Some p)
     \<longleftrightarrow> (\<exists>y ys. xs = y # ys \<and> g y ys = Inr (Some p))"
  by (cases xs) auto

lemma if_None_Some_iff:
  "(if c then Inr None else t) = Inr (Some p) \<longleftrightarrow> (\<not> c \<and> t = Inr (Some p))"
  by auto

text \<open>What a projection that is returned has computed, read off the function.\<close>

lemma project_strikeouts_success:
  assumes "project_strikeouts lib fs pitcher_name opponent_team park = Inr (Some p)"
  shows "\<exists>ks_logs ip_logs pitcher_hand pitcher_team logs lineup_data opponent_lineup platoon_mods
            team_k_pct pitcher_row.
           get_recent_ks_and_ip lib fs pitcher_name = Inr (ks_logs, ip_logs, pitcher_hand, pitcher_team, logs) \<and>
           lineup_cache fs opponent_team = Some lineup_data \<and>
           opponent_lineup_of lineup_data = Inr opponent_lineup \<and>
           opponent_lineup \<noteq> [] \<and>
           team_k_pct_of (if pitcher_hand = ''L'' then TEAM_TRENDS_LHP_L21 fs else TEAM_TRENDS_RHP_L21 fs)
             opponent_team = Inr team_k_pct \<and>
           p_matchup_mod p = clip (0.9 + 0.2 * (team_k_pct / LEAGUE_AVG_TEAM_K_PCT)) 0.85 1.15 \<and>
           collect (map (\<lambda>b. case get_platoon_modifier pitcher_hand (b_hand b) of
                                 None \<Rightarrow> Inl Unmodelled | Some v \<Rightarrow> Inr v) opponent_lineup) = Inr platoon_mods \<and>
           p_platoon_mod p = mean platoon_mods \<and>
           p_park_mod p = get_park_modifier park \<and>
           calculate_team_trend_modifier lib (py_strip opponent_team) pitcher_hand
             (load_normalized_trend_df (TEAM_TRENDS_LHP_L21 fs)) (load_normalized_trend_df (TEAM_TRENDS_RHP_L21 fs))
             (load_normalized_trend_df (TEAM_TRENDS_LHP_DELTA fs)) (load_normalized_trend_df (TEAM_TRENDS_RHP_DELTA fs))
             = Inr (p_team_trend_mod p) \<and>
           calculate_stuff_modifier (to_dict (FINAL_PITCHER_FILE fs) pitcher_row) logs = Inr (p_stuff_mod p) \<and>
           p_framing_mod p = calculate_catcher_framing_modifier pitcher_team \<and>
           get_putaway_pitch pitcher_name (FINAL_PITCHER_FILE fs) opponent_lineup = Inr (hd (p_pitch_types p)) \<and>
           p_batter_vuln_mod p =
             calculate_batter_vulnerability_mod opponent_lineup (hd (p_pitch_types p)) pitcher_hand \<and>
           length (p_pitch_types p) = 1 \<and>
           p_weights p = get_dynamic_weights pitcher_hand (p_pitch_types p) \<and>
           p_total_mod p = clip ((1.0 + sum_list
              [(p_matchup_mod p - 1) * p_weights p ! 0,
               (p_platoon_mod p - 1) * p_weights p ! 1,
               (p_park_mod p - 1) * p_weights p ! 2,
               (p_team_trend_mod p - 1) * p_weights p ! 3,
               (p_batter_vuln_mod p - 1) * p_weights p ! 4]) * p_stuff_mod p * p_framing_mod p) 0.85 1.15 \<and>
           p_base_ks p = (if ks_logs \<noteq> [] then calculate_ewma ks_logs 0.25 else LEAGUE_AVG_K) \<and>
           p_base_ip p = (if ip_logs \<noteq> [] then calculate_ewma ip_logs 0.25 else 5.0) \<and>
           except_Exception
             (scale_ip_mean lib (p_base_ip p) opponent_team pitcher_hand park
                (load_normalized_trend_df (TEAM_TRENDS_LHP_L21 fs)) (load_normalized_trend_df (TEAM_TRENDS_RHP_L21 fs))
                (load_normalized_trend_df (TEAM_TRENDS_LHP_DELTA fs)) (load_normalized_trend_df (TEAM_TRENDS_RHP_DELTA fs)))
             (p_base_ip p) = Inr (p_scaled_ip p) \<and>
           p_dispersion p = (if length ks_logs \<ge> 5 then std (drop (length ks_logs - 5) ks_logs) else 1.0) \<and>
           p_adjusted_mean p = p_base_ks p * p_total_mod p \<and>
           p_simulate_ks_args p = (p_adjusted_mean p, p_dispersion p, p_scaled_ip p)"
  using assms unfolding project_strikeouts_def Let_def
  by (clarsimp simp: cache_case_Some_iff option_case_Some_iff list_case_Some_iff if_None_Some_iff bnd_Inr_iff
        split del: if_split)
     (rule exI, assumption)

lemma calculate_ewma_single: "calculate_ewma [x] alpha = x"
  by (simp add: calculate_ewma_def ewma_weights_def)

text \<open>The projection for the example files, stage by stage.\<close>

lemma cole_logs:
  "get_recent_ks_and_ip plain_lib cole_files ''Gerrit Cole'' =
     Inr ([7], [6], ''R'', ''NYY'', [\<lparr>strikeouts = Some 7, innings_pitched = Some (JNum 6)\<rparr>])"
  by code_simp

lemma cole_files_fields:
  "lineup_cache cole_files ''BOS'' = Some bos_lineup"
  "FINAL_PITCHER_FILE cole_files = pitcher_table"
  "TEAM_TRENDS_LHP_L21 cole_files = bos_trend"
  "TEAM_TRENDS_RHP_L21 cole_files = bos_trend"
  "TEAM_TRENDS_LHP_DELTA cole_files = bos_trend"
  "TEAM_TRENDS_RHP_DELTA cole_files = bos_trend"
  by (simp_all add: cole_files_def)

lemma bos_lineup_batters: "opponent_lineup_of bos_lineup = Inr bos_batters"
  by code_simp

lemma bos_batters_facts:
  "bos_batters \<noteq> []"
  "collect (map (\<lambda>b. case get_platoon_modifier ''R'' (b_hand b) of
                        None \<Rightarrow> Inl Unmodelled | Some v \<Rightarrow> Inr v) bos_batters) = Inr [1.05, 0.95]"
  "calculate_batter_vulnerability_mod bos_batters (Txt ''SL'') ''R'' = 1"
  by code_simp+

lemma bos_k_pct: "team_k_pct_of bos_trend ''BOS'' = Inr 0.195"
  by code_simp

lemma bos_trend_normalized:
  "load_normalized_trend_df bos_trend = \<lparr>columns = [''team'', ''kpct''], rows = [[Txt ''BOS'', Num 0.195]]\<rparr>"
  by code_simp

lemma bos_trend_mod:
  "calculate_team_trend_modifier plain_lib (py_strip ''BOS'') ''R''
     (load_normalized_trend_df bos_trend) (load_normalized_trend_df bos_trend)
     (load_normalized_trend_df bos_trend) (load_normalized_trend_df bos_trend) = Inr 1.15"
  by code_simp

lemma cole_name_col:
  "get_column_name pitcher_table [''Name'', ''name'', ''pitcher_name'', ''player_name''] = Some ''Name''"
  by code_simp

lemma cole_rows:
  "find_pitcher_rows plain_lib pitcher_table ''Name'' ''Gerrit Cole'' = [[Txt ''Gerrit Cole'', Num 110]]"
  by code_simp

lemma cole_putaway:
  "get_putaway_pitch ''Gerrit Cole'' pitcher_table bos_batters = Inr (Txt ''SL'')"
  by code_simp

lemma cole_stuff:
  "calculate_stuff_modifier (to_dict pitcher_table [Txt ''Gerrit Cole'', Num 110])
     [\<lparr>strikeouts = Some 7, innings_pitched = Some (JNum 6)\<rparr>] = Inr 1.0279"
  by code_simp

lemma fenway_park_mod: "get_park_modifier ''Fenway Park'' = 0.96"
  by code_simp

lemma nyy_framing: "calculate_catcher_framing_modifier ''NYY'' = 1"
  by code_simp

lemma bos_scaled_factor:
  "scale_ip_mean plain_lib base_ip ''BOS'' ''R'' ''Fenway Park''
     (load_normalized_trend_df bos_trend) (load_normalized_trend_df bos_trend)
     (load_normalized_trend_df bos_trend) (load_normalized_trend_df bos_trend) = Inr (base_ip * 0.96)"
proof -
  let ?df = "load_normalized_trend_df bos_trend"
  have "map_option (\<lambda>d. (d ''k_pct'', d ''K%'', d ''wRC+'', d ''wrc_plus''))
          (get_recent_team_row_sl plain_lib ''BOS'' ?df) = Some (None, None, None, None)"
    by code_simp
  then obtain d where row: "get_recent_team_row_sl plain_lib ''BOS'' ?df = Some d"
    and cells: "d ''k_pct'' = None" "d ''K%'' = None" "d ''wRC+'' = None" "d ''wrc_plus'' = None"
    by auto
  have park: "dict_get (map_of PARK_FACTORS) ''Fenway Park'' 1 = 0.96"
    by code_simp
  have league: "LEAGUE_AVG_TEAM_K_PCT \<noteq> 0" "\<not> LEAGUE_AVG_TEAM_K_PCT > 1"
    by (simp_all add: LEAGUE_AVG_TEAM_K_PCT_def)
  show ?thesis
    unfolding scale_ip_mean_def scale_ip_body_def Let_def
    by (simp add: row cells dict_get_def[of d] park league py_pow_def clip_def)
qed

lemma bos_scaled_ip:
  "scale_ip_mean plain_lib 6 ''BOS'' ''R'' ''Fenway Park''
     (load_normalized_trend_df bos_trend) (load_normalized_trend_df bos_trend)
     (load_normalized_trend_df bos_trend) (load_normalized_trend_df bos_trend) = Inr 5.76"
  using bos_scaled_factor [of 6] by simp

lemma cole_projection:
  "project_strikeouts plain_lib cole_files ''Gerrit Cole'' ''BOS'' ''Fenway Park'' =
     Inr (Some \<lparr>p_pitcher = ''Gerrit Cole'',
            p_matchup_mod = 1.1,
            p_platoon_mod = 1,
            p_park_mod = 0.96,
            p_team_trend_mod = 1.15,
            p_stuff_mod = 1.0279,
            p_batter_vuln_mod = 1,
            p_framing_mod = 1,
            p_pitch_types = [Txt ''SL''],
            p_weights = [0.25, 0.25, 0.20, 0.20, 0.30],
            p_total_mod = 1.0762113,
            p_base_ks = 7,
            p_base_ip = 6,
            p_scaled_ip = 5.76,
            p_dispersion = 1,
            p_adjusted_mean = 7.5334791,
            p_simulate_ks_args = (7.5334791, 1, 5.76)\<rparr>)"
proof -
  have weights: "get_dynamic_weights ''R'' [Txt ''SL''] = [0.25, 0.25, 0.20, 0.20, 0.30]"
    by (simp add: get_dynamic_weights_def Let_def)
  have matchup: "clip (0.9 + 0.2 * (0.195 / LEAGUE_AVG_TEAM_K_PCT)) 0.85 1.15 = 1.1"
    by (simp add: LEAGUE_AVG_TEAM_K_PCT_def clip_def)
  have platoon: "mean [1.05, 0.95] = 1"
    by (simp add: mean_def)
  have total: "clip ((1.0 + sum_list
            [(1.1 - 1) * [0.25, 0.25, 0.20, 0.20, 0.30] ! 0,
             (1 - 1) * [0.25, 0.25, 0.20, 0.20, 0.30] ! 1,
             (0.96 - 1) * [0.25, 0.25, 0.20, 0.20, 0.30] ! 2,
             (1.15 - 1) * [0.25, 0.25, 0.20, 0.20, 0.30] ! 3,
             (1 - 1) * [0.25, 0.25, 0.20, 0.20, 0.30] ! 4]) * 1.0279 * 1) 0.85 1.15 = (1.0762113 :: real)"
    by (simp add: clip_def)
  have disp: "(if length [7::real] \<ge> 5 then std (drop (length [7::real] - 5) [7]) else 1.0) = 1"
    by simp
  have "project_strikeouts plain_lib cole_files ''Gerrit Cole'' ''BOS'' ''Fenway Park'' =
     Inr (Some \<lparr>p_pitcher = ''Gerrit Cole'',
            p_matchup_mod = 1.1,
            p_platoon_mod = 1,
            p_park_mod = 0.96,
            p_team_trend_mod = 1.15,
            p_stuff_mod = 1.0279,
            p_batter_vuln_mod = 1,
            p_framing_mod = 1,
            p_pitch_types = [Txt ''SL''],
            p_weights = [0.25, 0.25, 0.20, 0.20, 0.30],
            p_total_mod = 1.0762113,
            p_base_ks = 7,
            p_base_ip = 6,
            p_scaled_ip = 5.76,
            p_dispersion = 1,
            p_adjusted_mean = 7 * 1.0762113,
            p_simulate_ks_args = (7 * 1.0762113, 1, 5.76)\<rparr>)"
    unfolding project_strikeouts_def cole_logs
    by (simp only: sum.case prod.case option.case list.case Let_def cole_files_fields bos_lineup_batters
          bnd_Inr bos_batters_facts if_False if_True bos_k_pct bos_trend_mod refl
          cole_name_col cole_rows cole_putaway cole_stuff weights calculate_ewma_single bos_scaled_ip
          fenway_park_mod nyy_framing except_Exception_Inr matchup platoon total disp
          list.distinct not_False_eq_True simp_thms if_cancel)
  then show ?thesis by simp
qed

lemma no_logs_projection:
  "project_strikeouts plain_lib no_logs_files ''Gerrit Cole'' ''BOS'' ''Fenway Park'' =
     Inr (Some \<lparr>p_pitcher = ''Gerrit Cole'',
            p_matchup_mod = 1.1,
            p_platoon_mod = 1,
            p_park_mod = 0.96,
            p_team_trend_mod = 1.15,
            p_stuff_mod = 1.0279,
            p_batter_vuln_mod = 1,
            p_framing_mod = 1,
            p_pitch_types = [Txt ''SL''],
            p_weights = [0.25, 0.25, 0.20, 0.20, 0.30],
            p_total_mod = 1.0762113,
            p_base_ks = 6.5,
            p_base_ip = 5,
            p_scaled_ip = 4.8,
            p_dispersion = 1,
            p_adjusted_mean = 6.99537345,
            p_simulate_ks_args = (6.99537345, 1, 4.8)\<rparr>)"
proof -
  have logs: "get_recent_ks_and_ip plain_lib no_logs_files ''Gerrit Cole'' = Inr ([], [], ''R'', ''NYY'', [])"
    by code_simp
  have files:
    "lineup_cache no_logs_files ''BOS'' = Some bos_lineup"
    "FINAL_PITCHER_FILE no_logs_files = pitcher_table"
    "TEAM_TRENDS_LHP_L21 no_logs_files = bos_trend"
    "TEAM_TRENDS_RHP_L21 no_logs_files = bos_trend"
    "TEAM_TRENDS_LHP_DELTA no_logs_files = bos_trend"
    "TEAM_TRENDS_RHP_DELTA no_logs_files = bos_trend"
    by (simp_all add: no_logs_files_def cole_files_def)
  have stuff: "calculate_stuff_modifier (to_dict pitcher_table [Txt ''Gerrit Cole'', Num 110]) [] = Inr 1.0279"
    by code_simp
  have scaled: "scale_ip_mean plain_lib 5.0 ''BOS'' ''R'' ''Fenway Park''
     (load_normalized_trend_df bos_trend) (load_normalized_trend_df bos_trend)
     (load_normalized_trend_df bos_trend) (load_normalized_trend_df bos_trend) = Inr 4.8"
    using bos_scaled_factor [of "5.0"] by simp
  have weights: "get_dynamic_weights ''R'' [Txt ''SL''] = [0.25, 0.25, 0.20, 0.20, 0.30]"
    by (simp add: get_dynamic_weights_def Let_def)
  have matchup: "clip (0.9 + 0.2 * (0.195 / LEAGUE_AVG_TEAM_K_PCT)) 0.85 1.15 = 1.1"
    by (simp add: LEAGUE_AVG_TEAM_K_PCT_def clip_def)
  have platoon: "mean [1.05, 0.95] = 1"
    by (simp add: mean_def)
  have total: "clip ((1.0 + sum_list
            [(1.1 - 1) * [0.25, 0.25, 0.20, 0.20, 0.30] ! 0,
             (1 - 1) * [0.25, 0.25, 0.20, 0.20, 0.30] ! 1,
             (0.96 - 1) * [0.25, 0.25, 0.20, 0.20, 0.30] ! 2,
             (1.15 - 1) * [0.25, 0.25, 0.20, 0.20, 0.30] ! 3,
             (1 - 1) * [0.25, 0.25, 0.20, 0.20, 0.30] ! 4]) * 1.0279 * 1) 0.85 1.15 = (1.0762113 :: real)"
    by (simp add: clip_def)
  have disp: "(if length ([]::real list) \<ge> 5 then std (drop (length ([]::real list) - 5) []) else 1.0) = 1"
    by simp
  have "project_strikeouts plain_lib no_logs_files ''Gerrit Cole'' ''BOS'' ''Fenway Park'' =
     Inr (Some \<lparr>p_pitcher = ''Gerrit Cole'',
            p_matchup_mod = 1.1,
            p_platoon_mod = 1,
            p_park_mod = 0.96,
            p_team_trend_mod = 1.15,
            p_stuff_mod = 1.0279,
            p_batter_vuln_mod = 1,
            p_framing_mod = 1,
            p_pitch_types = [Txt ''SL''],
            p_weights = [0.25, 0.25, 0.20, 0.20, 0.30],
            p_total_mod = 1.0762113,
            p_base_ks = LEAGUE_AVG_K,
            p_base_ip = 5.0,
            p_scaled_ip = 4.8,
            p_dispersion = 1,
            p_adjusted_mean = LEAGUE_AVG_K * 1.0762113,
            p_simulate_ks_args = (LEAGUE_AVG_K * 1.0762113, 1, 4.8)\<rparr>)"
    unfolding project_strikeouts_def logs
    by (simp only: sum.case prod.case option.case list.case Let_def files bos_lineup_batters
          bnd_Inr bos_batters_facts if_False if_True bos_k_pct bos_trend_mod refl
          cole_name_col cole_rows cole_putaway stuff weights scaled
          fenway_park_mod nyy_framing except_Exception_Inr matchup platoon total disp
          list.distinct not_False_eq_True simp_thms if_cancel)
  then show ?thesis by (simp add: LEAGUE_AVG_K_def)
qed

lemma no_logs_files_logs:
  "get_recent_ks_and_ip plain_lib no_logs_files ''Gerrit Cole'' = Inr ([], [], ''R'', ''NYY'', [])"
  by code_simp

lemma webb_raises:
  "project_strikeouts plain_lib webb_files ''Logan Webb'' ''PIT'' ''PNC Park'' = Inl NameError"
proof -
  have logs: "get_recent_ks_and_ip plain_lib webb_files ''Logan Webb'' =
     Inr ([7], [6], ''R'', ''SF'', [\<lparr>strikeouts = Some 7, innings_pitched = Some (JNum 6)\<rparr>])"
    by code_simp
  have lineup: "lineup_cache webb_files ''PIT'' = Some \<lparr>lj_lineup = Some [BatterDict (Some ''A. McCutchen'') (Some ''R'')]\<rparr>"
    by (simp add: webb_files_def)
  have batters: "opponent_lineup_of \<lparr>lj_lineup = Some [BatterDict (Some ''A. McCutchen'') (Some ''R'')]\<rparr> = Inl NameError"
    by code_simp
  show ?thesis
    unfolding project_strikeouts_def logs
    by (simp only: sum.case prod.case option.case Let_def lineup batters bnd_Inl)
qed

lemma webb_not_in_table:
  "get_column_name (FINAL_PITCHER_FILE webb_files) [''Name'', ''name'', ''pitcher_name'', ''player_name''] = Some ''Name''"
  "find_pitcher_rows plain_lib (FINAL_PITCHER_FILE webb_files) ''Name'' ''Logan Webb'' = []"
  by code_simp+

text \<open>
  The lookup of the opponent's K% at line 154 reads the column \<open>Team\<close> only: with a
  team column named \<open>Tm\<close> it raises \<open>KeyError\<close>, which its handler does not catch,
  before the pitcher table is searched.
\<close>

lemma tm_column_raises:
  "find_pitcher_rows plain_lib (FINAL_PITCHER_FILE tm_files) ''Name'' ''Logan Webb'' = [] \<and>
   project_strikeouts plain_lib tm_files ''Logan Webb'' ''BOS'' ''Fenway Park'' = Inl KeyError"
proof -
  have logs: "get_recent_ks_and_ip plain_lib tm_files ''Logan Webb'' =
     Inr ([7], [6], ''R'', ''SF'', [\<lparr>strikeouts = Some 7, innings_pitched = Some (JNum 6)\<rparr>])"
    by code_simp
  have files: "lineup_cache tm_files ''BOS'' = Some bos_lineup"
    "TEAM_TRENDS_LHP_L21 tm_files = tm_trend" "TEAM_TRENDS_RHP_L21 tm_files = tm_trend"
    by (simp_all add: tm_files_def)
  have k: "team_k_pct_of tm_trend ''BOS'' = Inl KeyError"
    by code_simp
  have rows: "find_pitcher_rows plain_lib (FINAL_PITCHER_FILE tm_files) ''Name'' ''Logan Webb'' = []"
    by code_simp
  have "project_strikeouts plain_lib tm_files ''Logan Webb'' ''BOS'' ''Fenway Park'' = Inl KeyError"
    unfolding project_strikeouts_def logs
    by (simp only: sum.case prod.case option.case Let_def files bos_lineup_batters bnd_Inr bnd_Inl
          bos_batters_facts if_False if_True k simp_thms if_cancel)
  with rows show ?thesis by simp
qed

text \<open>
  When \<open>project_strikeouts\<close> returns \<open>None\<close>: the pitcher has no cache file; or the opponent
  has no cached lineup; or the lineup holds no dictionary; or, when nothing before has
  raised, the pitcher table has no name column or no row for the pitcher, exactly or
  among the close matches.
\<close>

lemma cache_case_None_iff:
  "(case r of Inl FileNotFoundError \<Rightarrow> Inr None | Inl e \<Rightarrow> Inl e | Inr t \<Rightarrow> g t) = Inr None
     \<longleftrightarrow> r = Inl FileNotFoundError \<or> (\<exists>t. r = Inr t \<and> g t = Inr None)"
  by (cases r) (auto split: exn.splits)

lemma option_case_None_iff:
  "(case x of None \<Rightarrow> Inr None | Some y \<Rightarrow> g y) = Inr None
     \<longleftrightarrow> x = None \<or> (\<exists>y. x = Some y \<and> g y = Inr None)"
  by (cases x) auto

lemma list_case_None_iff:
  "(case xs of [] \<Rightarrow> Inr None | y # ys \<Rightarrow> g y ys) = Inr None
     \<longleftrightarrow> xs = [] \<or> (\<exists>y ys. xs = y # ys \<and> g y ys = Inr None)"
  by (cases xs) auto

lemma if_None_None_iff:
  "(if c then Inr None else t) = Inr None \<longleftrightarrow> c \<or> t = Inr None"
  by auto

lemma project_strikeouts_None_iff:
  "project_strikeouts lib fs pitcher_name opponent_team park = Inr None \<longleftrightarrow>
     get_recent_ks_and_ip lib fs pitcher_name = Inl FileNotFoundError \<or>
     (\<exists>ks_logs ip_logs pitcher_hand pitcher_team logs.
        get_recent_ks_and_ip lib fs pitcher_name = Inr (ks_logs, ip_logs, pitcher_hand, pitcher_team, logs) \<and>
        (lineup_cache fs opponent_team = None \<or>
         (\<exists>lineup_data.
            lineup_cache fs opponent_team = Some lineup_data \<and>
            (opponent_lineup_of lineup_data = Inr [] \<or>
             (\<exists>opponent_lineup team_k_pct platoon_mods team_trend_mod.
                opponent_lineup_of lineup_data = Inr opponent_lineup \<and> opponent_lineup \<noteq> [] \<and>
                team_k_pct_of (if pitcher_hand = ''L'' then TEAM_TRENDS_LHP_L21 fs else TEAM_TRENDS_RHP_L21 fs)
                  opponent_team = Inr team_k_pct \<and>
                collect (map (\<lambda>b. case get_platoon_modifier pitcher_hand (b_hand b) of
                                 None \<Rightarrow> Inl Unmodelled | Some v \<Rightarrow> Inr v) opponent_lineup) = Inr platoon_mods \<and>
                calculate_team_trend_modifier lib (py_strip opponent_team) pitcher_hand
                  (load_normalized_trend_df (TEAM_TRENDS_LHP_L21 fs)) (load_normalized_trend_df (TEAM_TRENDS_RHP_L21 fs))
                  (load_normalized_trend_df (TEAM_TRENDS_LHP_DELTA fs)) (load_normalized_trend_df (TEAM_TRENDS_RHP_DELTA fs))
                  = Inr team_trend_mod \<and>
                (case get_column_name (FINAL_PITCHER_FILE fs) [''Name'', ''name'', ''pitcher_name'', ''player_name''] of
                   None \<Rightarrow> True
                 | Some name_col \<Rightarrow> find_pitcher_rows lib (FINAL_PITCHER_FILE fs) name_col pitcher_name = []))))))"
  unfolding project_strikeouts_def Let_def
  apply (simp add: cache_case_None_iff option_case_None_iff list_case_None_iff if_None_None_iff bnd_Inr_iff
        split del: if_split del: get_column_name.simps)
  apply (cases "get_column_name (FINAL_PITCHER_FILE fs) [''Name'', ''name'', ''pitcher_name'', ''player_name'']")
   apply (simp_all split del: if_split del: get_column_name.simps)
   apply blast+
  done

text \<open>
  A batter with a dot in the name makes the projection raise \<open>NameError\<close>, whatever the
  pitcher table holds.
\<close>

lemma mem_dropWhile: "x \<in> set xs \<Longrightarrow> \<not> P x \<Longrightarrow> x \<in> set (dropWhile P xs)"
  by (induction xs) auto

lemma dot_in_py_strip: "CHR ''.'' \<in> set s \<Longrightarrow> CHR ''.'' \<in> set (py_strip s)"
proof -
  assume d: "CHR ''.'' \<in> set s"
  have n: "\<not> py_space (CHR ''.'')" by (simp add: py_space_def)
  from d n have "CHR ''.'' \<in> set (dropWhile py_space s)" by (rule mem_dropWhile)
  then have "CHR ''.'' \<in> set (rev (dropWhile py_space s))" by simp
  from this n have "CHR ''.'' \<in> set (dropWhile py_space (rev (dropWhile py_space s)))"
    by (rule mem_dropWhile)
  then show ?thesis by (simp add: py_strip_def)
qed

lemma dot_in_py_lower: "CHR ''.'' \<in> set s \<Longrightarrow> CHR ''.'' \<in> set (py_lower s)"
proof -
  assume "CHR ''.'' \<in> set s"
  then have "py_lower_char (CHR ''.'') \<in> set (map py_lower_char s)" by simp
  moreover have "py_lower_char (CHR ''.'') = CHR ''.''" by (simp add: py_lower_char_def)
  ultimately show ?thesis by (simp add: py_lower_def)
qed

lemma preprocess_dotted_name:
  assumes "CHR ''.'' \<in> set name"
  shows "preprocess_batter_from_lineup (BatterDict (Some name) hand) = Inl NameError"
proof -
  from assms have "CHR ''.'' \<in> set (py_strip name)" by (rule dot_in_py_strip)
  then have "CHR ''.'' \<in> set (filter (\<lambda>c. ascii_letter c \<or> c = CHR ''.'') (py_strip name))" by simp
  then have "CHR ''.'' \<in> set (py_lower (filter (\<lambda>c. ascii_letter c \<or> c = CHR ''.'') (py_strip name)))"
    by (rule dot_in_py_lower)
  then show ?thesis by (simp add: preprocess_batter_from_lineup_def Let_def)
qed

lemma preprocess_raises_only_NameError:
  "(\<exists>b. preprocess_batter_from_lineup entry = Inr b) \<or> preprocess_batter_from_lineup entry = Inl NameError"
  by (cases entry) (simp_all add: preprocess_batter_from_lineup_def Let_def)

lemma collect_raises:
  assumes "\<forall>m \<in> set ms. (\<exists>v. m = Inr v) \<or> m = Inl e" and "Inl e \<in> set ms"
  shows "collect ms = Inl e"
  using assms
proof (induction ms)
  case Nil
  then show ?case by simp
next
  case (Cons m ms)
  show ?case
  proof (cases m)
    case (Inl e')
    with Cons.prems(1) have "e' = e" by auto
    with Inl show ?thesis by simp
  next
    case (Inr v)
    with Cons.prems(2) have "Inl e \<in> set ms" by auto
    with Cons.IH Cons.prems(1) have "collect ms = Inl e" by auto
    with Inr show ?thesis by simp
  qed
qed

lemma dotted_name_raises:
  assumes "get_recent_ks_and_ip lib fs pitcher_name = Inr t"
      and "lineup_cache fs opponent_team = Some lineup_data"
      and "lj_lineup lineup_data = Some entries"
      and "BatterDict (Some name) hand \<in> set entries"
      and "CHR ''.'' \<in> set name"
  shows "project_strikeouts lib fs pitcher_name opponent_team park = Inl NameError"
proof -
  let ?ms = "map preprocess_batter_from_lineup (filter is_dict entries)"
  have "Inl NameError \<in> set ?ms"
    using assms(4) preprocess_dotted_name [OF assms(5), of hand] by force
  moreover have "\<forall>m \<in> set ?ms. (\<exists>v. m = Inr v) \<or> m = Inl NameError"
    using preprocess_raises_only_NameError by auto
  ultimately have "collect ?ms = Inl NameError"
    by (intro collect_raises) 
  then have l: "opponent_lineup_of lineup_data = Inl NameError"
    by (simp add: opponent_lineup_of_def assms(3))
  obtain ks_logs ip_logs pitcher_hand pitcher_team logs where
    t: "t = (ks_logs, ip_logs, pitcher_hand, pitcher_team, logs)"
    by (cases t)
  show ?thesis
    unfolding project_strikeouts_def assms(1) t
    by (simp only: sum.case prod.case option.case Let_def assms(2) l bnd_Inl)
qed


text \<open>
  C1, on the code. For the example files the base innings figure, the EWMA of the innings
  logs, is 6, and the call of \<open>simulate_ks\<close> has the arguments
  \<open>(adjusted mean, dispersion, scaled innings) = (7.5334791, 1, 5.76)\<close>: the second argument
  is the dispersion of the strikeout logs, not the base innings figure. The simulator
  derives the rate 7.5334791 per inning from it, where the base innings figure would
  give 1.25557985. The third argument is the scaled innings figure.
\<close>

theorem project_strikeouts_simulate_ks_second_argument:
  "(case project_strikeouts plain_lib cole_files ''Gerrit Cole'' ''BOS'' ''Fenway Park'' of
      Inr (Some p) \<Rightarrow>
        p_base_ip p = 6 \<and> p_dispersion p = 1 \<and> p_scaled_ip p = 5.76 \<and>
        p_simulate_ks_args p = (7.5334791, 1, 5.76)
    | _ \<Rightarrow> False) \<and>
   k_rate_per_inning 7.5334791 1 5.76 = Some 7.5334791 \<and>
   k_rate_per_inning 7.5334791 6 5.76 = Some 1.25557985"
  by (simp add: cole_projection k_rate_per_inning_def)

text \<open>
  C2, amended. For every projection that is returned, the total modifier is 1 plus the sum
  over matchup, platoon, park, team trend and batter vulnerability of the weight times the
  modifier minus 1, multiplied by the stuff and framing modifiers and clamped to
  [0.85, 1.15], with the weights of \<open>get_dynamic_weights\<close>. The adjusted mean is this total
  modifier times the EWMA of the strikeout logs when the pitcher has logs, and times
  \<open>LEAGUE_AVG_K\<close> = 6.5 when the pitcher has none.
\<close>

theorem total_modifier_and_adjusted_mean:
  assumes "project_strikeouts lib fs pitcher_name opponent_team park = Inr (Some p)"
  shows "\<exists>ks_logs ip_logs pitcher_hand pitcher_team logs.
           get_recent_ks_and_ip lib fs pitcher_name = Inr (ks_logs, ip_logs, pitcher_hand, pitcher_team, logs) \<and>
           p_weights p = get_dynamic_weights pitcher_hand (p_pitch_types p) \<and>
           p_total_mod p =
             clip ((1 + ((p_matchup_mod p - 1) * p_weights p ! 0 +
                         (p_platoon_mod p - 1) * p_weights p ! 1 +
                         (p_park_mod p - 1) * p_weights p ! 2 +
                         (p_team_trend_mod p - 1) * p_weights p ! 3 +
                         (p_batter_vuln_mod p - 1) * p_weights p ! 4))
                   * p_stuff_mod p * p_framing_mod p) 0.85 1.15 \<and>
           p_adjusted_mean p =
             (if ks_logs = [] then LEAGUE_AVG_K else calculate_ewma ks_logs 0.25) * p_total_mod p"
proof -
  from project_strikeouts_success [OF assms] obtain ks_logs ip_logs pitcher_hand pitcher_team logs where
    r: "get_recent_ks_and_ip lib fs pitcher_name = Inr (ks_logs, ip_logs, pitcher_hand, pitcher_team, logs)"
    and w: "p_weights p = get_dynamic_weights pitcher_hand (p_pitch_types p)"
    and t: "p_total_mod p = clip ((1.0 + sum_list
              [(p_matchup_mod p - 1) * p_weights p ! 0,
               (p_platoon_mod p - 1) * p_weights p ! 1,
               (p_park_mod p - 1) * p_weights p ! 2,
               (p_team_trend_mod p - 1) * p_weights p ! 3,
               (p_batter_vuln_mod p - 1) * p_weights p ! 4]) * p_stuff_mod p * p_framing_mod p) 0.85 1.15"
    and k: "p_base_ks p = (if ks_logs \<noteq> [] then calculate_ewma ks_logs 0.25 else LEAGUE_AVG_K)"
    and a: "p_adjusted_mean p = p_base_ks p * p_total_mod p"
    by blast
  from t have t': "p_total_mod p =
             clip ((1 + ((p_matchup_mod p - 1) * p_weights p ! 0 +
                         (p_platoon_mod p - 1) * p_weights p ! 1 +
                         (p_park_mod p - 1) * p_weights p ! 2 +
                         (p_team_trend_mod p - 1) * p_weights p ! 3 +
                         (p_batter_vuln_mod p - 1) * p_weights p ! 4))
                   * p_stuff_mod p * p_framing_mod p) 0.85 1.15"
    by (simp add: add.assoc)
  from k a have "p_adjusted_mean p =
             (if ks_logs = [] then LEAGUE_AVG_K else calculate_ewma ks_logs 0.25) * p_total_mod p"
    by simp
  with r w t' show ?thesis by blast
qed

text \<open>C2, amended, at the example files with one start and with no start.\<close>

theorem total_modifier_and_adjusted_mean_witness:
  "clip ((1 + ((1.1 - 1) * 0.25 + (1 - 1) * 0.25 + (0.96 - 1) * 0.20 + (1.15 - 1) * 0.20 + (1 - 1) * 0.30))
          * 1.0279 * 1) 0.85 1.15 = (1.0762113 :: real) \<and>
   (7.5334791 :: real) = calculate_ewma [7] 0.25 * 1.0762113 \<and>
   (6.99537345 :: real) = LEAGUE_AVG_K * 1.0762113"
proof -
  from total_modifier_and_adjusted_mean [OF cole_projection]
  have 1: "(1.0762113 :: real) =
      clip ((1 + ((1.1 - 1) * 0.25 + (1 - 1) * 0.25 + (0.96 - 1) * 0.20 + (1.15 - 1) * 0.20 + (1 - 1) * 0.30))
          * 1.0279 * 1) 0.85 1.15"
    and 2: "(7.5334791 :: real) = calculate_ewma [7] 0.25 * 1.0762113"
    by (simp_all add: cole_logs)
  from total_modifier_and_adjusted_mean [OF no_logs_projection]
  have 3: "(6.99537345 :: real) = LEAGUE_AVG_K * 1.0762113"
    by (simp add: no_logs_files_logs)
  from 1 2 3 show ?thesis by simp
qed

text \<open>
  C2 as stated fails for a pitcher whose cache file holds no start: the projection is
  returned with the adjusted mean 6.5 * 1.0762113, while the EWMA of no logs is 5.0.
\<close>

theorem adjusted_mean_without_logs_counterexample:
  "get_recent_ks_and_ip plain_lib no_logs_files ''Gerrit Cole'' = Inr ([], [], ''R'', ''NYY'', []) \<and>
   project_strikeouts plain_lib no_logs_files ''Gerrit Cole'' ''BOS'' ''Fenway Park'' =
     Inr (Some \<lparr>p_pitcher = ''Gerrit Cole'',
            p_matchup_mod = 1.1,
            p_platoon_mod = 1,
            p_park_mod = 0.96,
            p_team_trend_mod = 1.15,
            p_stuff_mod = 1.0279,
            p_batter_vuln_mod = 1,
            p_framing_mod = 1,
            p_pitch_types = [Txt ''SL''],
            p_weights = [0.25, 0.25, 0.20, 0.20, 0.30],
            p_total_mod = 1.0762113,
            p_base_ks = 6.5,
            p_base_ip = 5,
            p_scaled_ip = 4.8,
            p_dispersion = 1,
            p_adjusted_mean = 6.99537345,
            p_simulate_ks_args = (6.99537345, 1, 4.8)\<rparr>) \<and>
   (6.99537345 :: real) \<noteq> calculate_ewma [] 0.25 * 1.0762113"
  by (simp add: no_logs_files_logs no_logs_projection calculate_ewma_def)

text \<open>
  C4, on the code. The pitcher has a cache file, the opponent has a cached lineup, and the
  pitcher table has a name column and no row for the pitcher, exactly or among the close
  matches. The lineup holds a batter whose name is abbreviated with a dot, and the
  projection raises \<open>NameError\<close> instead of returning \<open>None\<close>.
\<close>

theorem project_strikeouts_dotted_name_raises:
  "pitcher_cache webb_files ''logan_webb'' \<noteq> None \<and>
   lineup_cache webb_files ''PIT'' \<noteq> None \<and>
   get_column_name (FINAL_PITCHER_FILE webb_files) [''Name'', ''name'', ''pitcher_name'', ''player_name'']
     = Some ''Name'' \<and>
   find_pitcher_rows plain_lib (FINAL_PITCHER_FILE webb_files) ''Name'' ''Logan Webb'' = [] \<and>
   project_strikeouts plain_lib webb_files ''Logan Webb'' ''PIT'' ''PNC Park'' = Inl NameError"
  using webb_raises webb_not_in_table
  by (simp add: webb_files_def del: get_column_name.simps)



text \<open>
  C10. For every projection that is returned, the list of pitch types passed to
  \<open>get_dynamic_weights\<close> has exactly one element, and the weights used are
  [0.25, 0.25, 0.20, 0.20, 0.30], not the base vector.
\<close>

theorem project_strikeouts_weights:
  assumes "project_strikeouts lib fs pitcher_name opponent_team park = Inr (Some p)"
  shows "length (p_pitch_types p) = 1 \<and>
         (\<exists>pitcher_hand. p_weights p = get_dynamic_weights pitcher_hand (p_pitch_types p)) \<and>
         p_weights p = [0.25, 0.25, 0.20, 0.20, 0.30] \<and>
         p_weights p \<noteq> [0.30, 0.25, 0.25, 0.20, 0.20]"
proof -
  from project_strikeouts_success [OF assms] obtain pitcher_hand where
    n: "length (p_pitch_types p) = 1"
    and w: "p_weights p = get_dynamic_weights pitcher_hand (p_pitch_types p)"
    by blast
  from n obtain x where "p_pitch_types p = [x]"
    by (cases "p_pitch_types p") auto
  with w have "p_weights p = [0.25, 0.25, 0.20, 0.20, 0.30]"
    by (simp add: get_dynamic_weights_def Let_def)
  with n w show ?thesis by auto
qed

text \<open>C10, at the example files.\<close>

theorem project_strikeouts_weights_witness:
  "length [Txt ''SL''] = 1 \<and>
   get_dynamic_weights ''R'' [Txt ''SL''] = [0.25, 0.25, 0.20, 0.20, 0.30]"
  using project_strikeouts_weights [OF cole_projection]
  by (simp add: get_dynamic_weights_def Let_def)

end
